theory Spec2Isabelle
  imports Main "HOL-Library.Sublist"
begin

section \<open>JavaScript values as the handlers see them\<close>

text \<open>
  Every inbound frame is the result of \<^verbatim>\<open>JSON.parse\<close>, typed \<^verbatim>\<open>any\<close> in the source.
  A parsed value is a \<open>json\<close>; \<^verbatim>\<open>undefined\<close> (a property that is absent) is \<open>None\<close>
  of \<open>json option\<close>. Strings are lists of code units below 256. Numbers are
  integers here: the handlers only test a number for truthiness and forward it.
  An object keeps its members as a list; on a duplicate key \<^verbatim>\<open>JSON.parse\<close> keeps the
  last member.
\<close>

datatype json =
    JNull
  | JBool bool
  | JNum int
  | JStr string
  | JArr "json list"
  | JObj "(string \<times> json) list"

type_synonym jsval = "json option"

datatype exn = TypeError string | Error string

fun message_of :: "exn \<Rightarrow> string" where
  "message_of (TypeError m) = m"
| "message_of (Error m) = m"

fun truthy :: "jsval \<Rightarrow> bool" where
  "truthy None = False"
| "truthy (Some JNull) = False"
| "truthy (Some (JBool b)) = b"
| "truthy (Some (JNum n)) = (n \<noteq> 0)"
| "truthy (Some (JStr s)) = (s \<noteq> [])"
| "truthy (Some (JArr xs)) = True"
| "truthy (Some (JObj kvs)) = True"

definition quoted :: "string \<Rightarrow> string" where
  "quoted k = [CHR 0x27] @ k @ [CHR 0x27]"

text \<open>
  \<^verbatim>\<open>v.k\<close>: reading a property of \<^verbatim>\<open>undefined\<close> or \<^verbatim>\<open>null\<close> throws a TypeError (the
  message is the engine's); a primitive or an array has none of the properties the
  handlers read; an object gives the member or \<^verbatim>\<open>undefined\<close>.
\<close>

fun field :: "json \<Rightarrow> string \<Rightarrow> jsval" where
  "field (JObj kvs) k = map_of (rev kvs) k"
| "field v k = None"

fun get_prop :: "jsval \<Rightarrow> string \<Rightarrow> exn + jsval" where
  "get_prop None k =
     Inl (TypeError (''Cannot read properties of undefined (reading '' @ quoted k @ '')''))"
| "get_prop (Some JNull) k =
     Inl (TypeError (''Cannot read properties of null (reading '' @ quoted k @ '')''))"
| "get_prop (Some v) k = Inr (field v k)"

text \<open>
  \<^verbatim>\<open>const { k } = v\<close>: destructuring \<^verbatim>\<open>undefined\<close> or \<^verbatim>\<open>null\<close> throws a TypeError;
  otherwise it reads the property.
\<close>

fun destructure :: "string \<Rightarrow> jsval \<Rightarrow> string \<Rightarrow> exn + jsval" where
  "destructure src None k =
     Inl (TypeError (''Cannot destructure property '' @ quoted k @ '' of '' @ quoted src
        @ '' as it is undefined.''))"
| "destructure src (Some JNull) k =
     Inl (TypeError (''Cannot destructure property '' @ quoted k @ '' of '' @ quoted src
        @ '' as it is null.''))"
| "destructure src (Some v) k = get_prop (Some v) k"

text \<open>\<^verbatim>\<open>v?.k\<close>: \<^verbatim>\<open>undefined\<close> on \<^verbatim>\<open>undefined\<close> and \<^verbatim>\<open>null\<close>, the property otherwise.\<close>

fun opt_prop :: "jsval \<Rightarrow> string \<Rightarrow> jsval" where
  "opt_prop (Some v) k = field v k"
| "opt_prop None k = None"

text \<open>
  \<^verbatim>\<open>v?.[0]\<close>: the first element of an array, the first code unit of a string, the
  member \<open>0\<close> of an object, \<^verbatim>\<open>undefined\<close> otherwise.
\<close>

fun opt_first :: "jsval \<Rightarrow> jsval" where
  "opt_first (Some (JArr (x # xs))) = Some x"
| "opt_first (Some (JStr (c # cs))) = Some (JStr [c])"
| "opt_first (Some (JObj kvs)) = field (JObj kvs) ''0''"
| "opt_first v = None"

text \<open>
  An object literal handed to \<^verbatim>\<open>JSON.stringify\<close>: a property whose value is
  \<^verbatim>\<open>undefined\<close> is left out of the text.
\<close>

definition mk_obj :: "(string \<times> jsval) list \<Rightarrow> json" where
  "mk_obj kvs = JObj (List.map_filter (\<lambda>(k, v). map_option (Pair k) v) kvs)"

text \<open>
  \<^verbatim>\<open>String.prototype.trim\<close> on code units below 256: tab, line feed, vertical tab,
  form feed, carriage return, space and no-break space are removed at both ends.
\<close>

definition js_whitespace :: "char \<Rightarrow> bool" where
  "js_whitespace c = (of_char c \<in> {9, 10, 11, 12, 13, 32, 160 :: nat})"

definition trim :: "string \<Rightarrow> string" where
  "trim s = rev (dropWhile js_whitespace (rev (dropWhile js_whitespace s)))"

text \<open>\<^verbatim>\<open>hay.includes(needle)\<close>: the needle is a contiguous part of the string.\<close>

fun includes_str :: "string \<Rightarrow> string \<Rightarrow> bool" where
  "includes_str [] needle = (needle = [])"
| "includes_str (c # cs) needle = (prefix needle (c # cs) \<or> includes_str cs needle)"

section \<open>The server's data\<close>

text \<open>
  \<^verbatim>\<open>interface Client\<close>. The field \<^verbatim>\<open>id\<close> is \<open>clientId\<close> here; the field \<^verbatim>\<open>ws\<close> is
  the socket of the connection whose id is \<open>clientId\<close> (\<^verbatim>\<open>handleAuthenticate\<close> builds
  the object with \<^verbatim>\<open>ws: ws, id: connectionId\<close>), so it is not stored twice.
\<close>

record client =
  clientId :: string
  userId :: string
  userName :: string
  isAuthenticated :: bool
  projectId :: "string option"

datatype readyState = CONNECTING | OPEN | CLOSING | CLOSED

text \<open>
  What one \<^verbatim>\<open>wss.on('connection', ...)\<close> closure holds: the socket's ready state, the
  variable \<^verbatim>\<open>client\<close> (\<^verbatim>\<open>null\<close> until authentication succeeds) and whether the
  authentication timer is still pending.
\<close>

record connection =
  ws :: readyState
  client :: "client option"
  authTimeout :: bool

text \<open>The envelope handed to \<^verbatim>\<open>broadcast\<close>; no caller sets \<^verbatim>\<open>requestId\<close> on it.\<close>

record message =
  mtype :: string
  payload :: json

definition stringify :: "message \<Rightarrow> json" where
  "stringify m = JObj [(''type'', JStr (mtype m)), (''payload'', payload m)]"

text \<open>
  What the handlers do to the outside, in the order they do it: \<^verbatim>\<open>ws.send\<close> on the
  socket of a connection, \<^verbatim>\<open>ws.close\<close> with its status code and reason,
  \<^verbatim>\<open>io.emit('project:update', ...)\<close> with the project id and the event type (the
  timestamp is the wall clock and is left out), \<^verbatim>\<open>axios.post\<close> with endpoint, body and
  headers, and a promise of \<^verbatim>\<open>handleMcpToolCall\<close> that rejects with nobody awaiting it.
\<close>

datatype effect =
    WsSend string json
  | WsClose string "nat option" "string option"
  | IoEmit string string
  | AxiosPost string json "(string \<times> string) list"
  | UnhandledRejection string exn

text \<open>
  A call of \<^verbatim>\<open>handleMcpToolCall\<close> suspended at \<^verbatim>\<open>await axios.post\<close>: the client object,
  the tool name and the request id it resumes with.
\<close>

record suspended =
  s_client :: client
  s_toolName :: string
  s_requestId :: jsval

text \<open>
  The server. \<open>conns\<close> holds the closure of every accepted socket under its connection
  id. \<open>clients\<close> is the \<^verbatim>\<open>Map\<close> of authenticated clients: its keys in insertion order;
  the value under key \<open>k\<close> is the \<^verbatim>\<open>Client\<close> object of connection \<open>k\<close>, the same object
  the closure holds (the only \<^verbatim>\<open>clients.set\<close> is \<^verbatim>\<open>clients.set(client.id, client)\<close> with
  \<^verbatim>\<open>client.id = connectionId\<close>), so a write to \<^verbatim>\<open>client.projectId\<close> is seen through
  the map. \<open>projects\<close> is the \<^verbatim>\<open>Map\<close> from project id to the set of user ids.
  \<open>exited\<close> says that the process has ended.
\<close>

record server =
  conns :: "string \<rightharpoonup> connection"
  clients :: "string list"
  projects :: "string \<rightharpoonup> string set"
  awaiting :: "suspended list"
  effects :: "effect list"
  exited :: bool

definition init :: server where
  "init = \<lparr>conns = Map.empty, clients = [], projects = Map.empty, awaiting = [], effects = [],
            exited = False\<rparr>"

section \<open>Utility functions\<close>

definition emit :: "server \<Rightarrow> effect \<Rightarrow> server" where
  "emit s e = s\<lparr>effects := effects s @ [e]\<rparr>"

definition ws_readyState :: "server \<Rightarrow> string \<Rightarrow> readyState" where
  "ws_readyState s k = (case conns s k of None \<Rightarrow> CLOSED | Some cn \<Rightarrow> ws cn)"

text \<open>The \<^verbatim>\<open>Client\<close> object the map \<open>clients\<close> holds under key \<open>k\<close>.\<close>

definition client_of :: "server \<Rightarrow> string \<Rightarrow> client option" where
  "client_of s k = (case conns s k of None \<Rightarrow> None | Some cn \<Rightarrow> client cn)"

text \<open>\<^verbatim>\<open>ws.close(code, reason)\<close>: an open socket starts closing.\<close>

definition ws_close :: "server \<Rightarrow> string \<Rightarrow> nat option \<Rightarrow> string option \<Rightarrow> server" where
  "ws_close s k code reason =
     (let s' = emit s (WsClose k code reason) in
      case conns s' k of
        None \<Rightarrow> s'
      | Some cn \<Rightarrow> if ws cn = OPEN then s'\<lparr>conns := (conns s')(k \<mapsto> cn\<lparr>ws := CLOSING\<rparr>)\<rparr> else s')"

definition sendResponse :: "server \<Rightarrow> client \<Rightarrow> json \<Rightarrow> jsval \<Rightarrow> server" where
  "sendResponse s c p requestId =
     (if ws_readyState s (clientId c) = OPEN
      then emit s (WsSend (clientId c)
             (mk_obj [(''type'', Some (JStr ''mcp_tool_response'')),
                      (''payload'', Some p),
                      (''requestId'', requestId)]))
      else s)"

definition sendError :: "server \<Rightarrow> client \<Rightarrow> string \<Rightarrow> jsval \<Rightarrow> server" where
  "sendError s c err requestId =
     (if ws_readyState s (clientId c) = OPEN
      then emit s (WsSend (clientId c)
             (mk_obj [(''type'', Some (JStr ''mcp_tool_response'')),
                      (''payload'', Some (JObj [(''error'', JStr err)])),
                      (''isError'', Some (JBool True)),
                      (''requestId'', requestId)]))
      else s)"

text \<open>
  The body of \<^verbatim>\<open>clients.forEach\<close> in \<^verbatim>\<open>broadcast\<close>, for the client under key \<open>k\<close>.
\<close>

definition deliver ::
  "string \<Rightarrow> string set \<Rightarrow> json \<Rightarrow> client option \<Rightarrow> string \<Rightarrow> server \<Rightarrow> server" where
  "deliver pid projectUserIds messageString excludeClient k s =
     (case client_of s k of
        None \<Rightarrow> s
      | Some c \<Rightarrow>
          if isAuthenticated c \<and> projectId c = Some pid \<and> userId c \<in> projectUserIds then
            (if (case excludeClient of None \<Rightarrow> False | Some x \<Rightarrow> clientId c = clientId x)
             then s
             else if ws_readyState s (clientId c) = OPEN
               then emit s (WsSend (clientId c) messageString)
               else s)
          else s)"

definition broadcast :: "server \<Rightarrow> string \<Rightarrow> message \<Rightarrow> client option \<Rightarrow> server" where
  "broadcast s pid m excludeClient =
     (case projects s pid of
        None \<Rightarrow> s
      | Some projectUserIds \<Rightarrow>
          fold (deliver pid projectUserIds (stringify m) excludeClient) (clients s)
            (emit s (IoEmit pid (mtype m))))"

section \<open>Configuration and external libraries\<close>

text \<open>
  \<^verbatim>\<open>jwt.verify(token, JWT_SECRET)\<close> is a library call: it throws a
  \<^verbatim>\<open>JsonWebTokenError\<close> (with its message), throws something else, or returns the
  decoded claims, of which the handler reads \<^verbatim>\<open>userId\<close> and \<^verbatim>\<open>userName\<close> (typed
  \<^verbatim>\<open>string\<close> by \<^verbatim>\<open>interface JwtPayload\<close>; \<open>None\<close> is an absent claim).
\<close>

datatype verify_error = JsonWebTokenError string | OtherVerifyError

text \<open>The process environment: the verifier with its secret, and the two API keys.\<close>

record environment =
  jwt_verify :: "string \<Rightarrow> verify_error + (string option \<times> string option)"
  OPENAI_API_KEY :: "string option"
  ANTHROPIC_API_KEY :: "string option"

text \<open>
  How \<^verbatim>\<open>axios.post\<close> settles: it rejects with an error carrying
  \<^verbatim>\<open>error.response?.data?.error?.message\<close> (when the upstream sent one) and
  \<^verbatim>\<open>error.message\<close>, or it resolves with \<^verbatim>\<open>response.data\<close>.
\<close>

datatype axios_error = AxiosError "string option" string

section \<open>Authentication handler\<close>

definition handleAuthenticate :: "environment \<Rightarrow> string \<Rightarrow> jsval \<Rightarrow> exn + client" where
  "handleAuthenticate env connectionId pl =
     (case destructure ''payload'' pl ''token'' of
        Inl e \<Rightarrow> Inl e
      | Inr token \<Rightarrow>
          (case token of
             Some (JStr t) \<Rightarrow>
               if t = [] then Inl (Error ''Authentication token missing or invalid'')
               else
                 (case jwt_verify env t of
                    Inl (JsonWebTokenError m) \<Rightarrow> Inl (Error (''Authentication failed: '' @ m))
                  | Inl OtherVerifyError \<Rightarrow>
                      Inl (Error ''Authentication failed: Unable to verify token'')
                  | Inr (Some u, Some n) \<Rightarrow>
                      if u = [] \<or> n = []
                      then Inl (Error ''Authentication failed: Unable to verify token'')
                      else Inr \<lparr>clientId = connectionId, userId = u, userName = n,
                                isAuthenticated = True, projectId = None\<rparr>
                  | Inr _ \<Rightarrow> Inl (Error ''Authentication failed: Unable to verify token''))
           | _ \<Rightarrow> Inl (Error ''Authentication token missing or invalid'')))"

section \<open>Tool call handler\<close>

text \<open>
  The end of the process: every socket drops, every timer is gone, and no handler runs
  again (\<open>step\<close> below).
\<close>

definition process_exit :: "server \<Rightarrow> server" where
  "process_exit s =
     s\<lparr>conns := (\<lambda>k. map_option (\<lambda>cn. cn\<lparr>ws := CLOSED, authTimeout := False\<rparr>) (conns s k)),
       exited := True\<rparr>"

text \<open>
  An exception of \<^verbatim>\<open>handleMcpToolCall\<close> outside its \<^verbatim>\<open>try\<close>. The function is \<^verbatim>\<open>async\<close>
  and the message handler calls it without \<^verbatim>\<open>await\<close>, so the exception rejects a promise
  that nobody handles. The source installs no \<^verbatim>\<open>unhandledRejection\<close> listener and is
  started as \<^verbatim>\<open>node build/index.js\<close> on Node 16 or newer, where an unhandled rejection
  ends the process.
\<close>

definition reject :: "server \<Rightarrow> client \<Rightarrow> exn \<Rightarrow> server" where
  "reject s c e = process_exit (emit s (UnhandledRejection (clientId c) e))"

definition user_event :: "string \<Rightarrow> client \<Rightarrow> message" where
  "user_event t c =
     \<lparr>mtype = t,
      payload = JObj [(''userId'', JStr (userId c)), (''userName'', JStr (userName c))]\<rparr>"

text \<open>
  The block both \<^verbatim>\<open>project:join\<close> (for the old project) and the \<^verbatim>\<open>close\<close> handler
  run: take the user id out of the project's set, delete the project when the set is
  empty, tell the others otherwise.
\<close>

definition leaveProject :: "server \<Rightarrow> client \<Rightarrow> string \<Rightarrow> server" where
  "leaveProject s c pid =
     (case projects s pid of
        None \<Rightarrow> s
      | Some projectClients \<Rightarrow>
          if projectClients - {userId c} = {}
          then s\<lparr>projects := (projects s)(pid := None)\<rparr>
          else broadcast (s\<lparr>projects := (projects s)(pid \<mapsto> projectClients - {userId c})\<rparr>)
                 pid (user_event ''user_left'' c) (Some c))"

text \<open>\<^verbatim>\<open>client.projectId = projectId\<close>, a write to the object the closure holds.\<close>

definition set_projectId :: "server \<Rightarrow> client \<Rightarrow> string \<Rightarrow> server" where
  "set_projectId s c pid =
     (case conns s (clientId c) of
        None \<Rightarrow> s
      | Some cn \<Rightarrow>
          s\<lparr>conns := (conns s)(clientId c \<mapsto>
               cn\<lparr>client := map_option (\<lambda>obj. obj\<lparr>projectId := Some pid\<rparr>) (client cn)\<rparr>)\<rparr>)"

text \<open>\<^verbatim>\<open>if (!projects.has(projectId)) projects.set(projectId, new Set())\<close>.\<close>

definition ensure_project :: "server \<Rightarrow> string \<Rightarrow> server" where
  "ensure_project s pid =
     (if projects s pid = None then s\<lparr>projects := (projects s)(pid \<mapsto> {})\<rparr> else s)"

text \<open>\<^verbatim>\<open>projects.get(projectId)!.add(client.userId)\<close>.\<close>

definition add_member :: "server \<Rightarrow> string \<Rightarrow> string \<Rightarrow> server" where
  "add_member s pid u =
     (case projects s pid of
        None \<Rightarrow> s
      | Some members \<Rightarrow> s\<lparr>projects := (projects s)(pid \<mapsto> insert u members)\<rparr>)"

definition project_join :: "server \<Rightarrow> client \<Rightarrow> jsval \<Rightarrow> jsval \<Rightarrow> server" where
  "project_join s c args requestId =
     (case get_prop args ''projectId'' of
        Inl e \<Rightarrow> reject s c e
      | Inr v \<Rightarrow>
          (case v of
             Some (JStr pid) \<Rightarrow>
               if pid = []
               then sendError s c ''Missing or invalid projectId for project:join'' requestId
               else
                 (let s1 = (case projectId c of
                              None \<Rightarrow> s
                            | Some old \<Rightarrow>
                                if old \<noteq> [] \<and> old \<noteq> pid then leaveProject s c old else s);
                      s2 = set_projectId s1 c pid;
                      s3 = add_member (ensure_project s2 pid) pid (userId c);
                      s4 = sendResponse s3 c
                             (JObj [(''success'', JBool True),
                                    (''message'', JStr (''Joined project '' @ pid))])
                             requestId
                  in broadcast s4 pid (user_event ''user_joined'' c) (Some c))
           | _ \<Rightarrow> sendError s c ''Missing or invalid projectId for project:join'' requestId))"

definition edit_send :: "server \<Rightarrow> client \<Rightarrow> jsval \<Rightarrow> jsval \<Rightarrow> server" where
  "edit_send s c args requestId =
     (case projectId c of
        None \<Rightarrow> sendError s c ''Cannot send edit: Not currently in a project'' requestId
      | Some p \<Rightarrow>
          if p = [] then sendError s c ''Cannot send edit: Not currently in a project'' requestId
          else
            (case destructure ''args'' args ''fileId'' of
               Inl e \<Rightarrow> reject s c e
             | Inr fileId \<Rightarrow>
                 (case (fileId, opt_prop args ''changeData'') of
                    (Some (JStr f), Some (JArr cd)) \<Rightarrow>
                      if f = []
                      then sendError s c
                        ''Missing, invalid, or incorrectly formatted fileId or changeData for edit:send''
                        requestId
                      else
                        sendResponse
                          (broadcast s p
                             \<lparr>mtype = ''edit_applied'',
                              payload = JObj [(''fileId'', JStr f),
                                              (''changeData'', JArr cd),
                                              (''sourceUserId'', JStr (userId c)),
                                              (''sourceUserName'', JStr (userName c))]\<rparr>
                             (Some c))
                          c
                          (JObj [(''success'', JBool True),
                                 (''message'', JStr ''Edit broadcasted'')])
                          requestId
                  | _ \<Rightarrow> sendError s c
                      ''Missing, invalid, or incorrectly formatted fileId or changeData for edit:send''
                      requestId)))"

text \<open>\<^verbatim>\<open>typeof v === 'object'\<close> on a truthy value: an object or an array.\<close>

fun is_object :: "jsval \<Rightarrow> bool" where
  "is_object (Some (JObj kvs)) = True"
| "is_object (Some (JArr xs)) = True"
| "is_object v = False"

definition cursor_update :: "server \<Rightarrow> client \<Rightarrow> jsval \<Rightarrow> jsval \<Rightarrow> server" where
  "cursor_update s c args requestId =
     (case projectId c of
        None \<Rightarrow> sendError s c ''Cannot update cursor: Not currently in a project'' requestId
      | Some p \<Rightarrow>
          if p = [] then sendError s c ''Cannot update cursor: Not currently in a project'' requestId
          else
            (case destructure ''args'' args ''fileId'' of
               Inl e \<Rightarrow> reject s c e
             | Inr fileId \<Rightarrow>
                 (case (fileId, opt_prop args ''position'') of
                    (Some (JStr f), Some pos) \<Rightarrow>
                      if f = [] \<or> \<not> is_object (Some pos)
                      then sendError s c
                        ''Missing or invalid fileId or position for cursor:update'' requestId
                      else
                        broadcast s p
                          \<lparr>mtype = ''cursor_moved'',
                           payload = JObj [(''fileId'', JStr f),
                                           (''position'', pos),
                                           (''sourceUserId'', JStr (userId c)),
                                           (''sourceUserName'', JStr (userName c))]\<rparr>
                          (Some c)
                  | _ \<Rightarrow> sendError s c
                      ''Missing or invalid fileId or position for cursor:update'' requestId)))"

text \<open>\<^verbatim>\<open>a || b\<close> on two environment variables: the first when it is a non-empty string.\<close>

definition or_else :: "string option \<Rightarrow> string option \<Rightarrow> string option" where
  "or_else a b = (case a of Some x \<Rightarrow> if x \<noteq> [] then a else b | None \<Rightarrow> b)"

text \<open>\<^verbatim>\<open>args.prompt || args.codeSnippet || "How can I help you?"\<close>.\<close>

definition prompt_of :: "jsval \<Rightarrow> exn + json" where
  "prompt_of args =
     (case get_prop args ''prompt'' of
        Inl e \<Rightarrow> Inl e
      | Inr p \<Rightarrow>
          (case (if truthy p then p else opt_prop args ''codeSnippet'') of
             None \<Rightarrow> Inr (JStr ''How can I help you?'')
           | Some v \<Rightarrow> if truthy (Some v) then Inr v else Inr (JStr ''How can I help you?'')))"

definition suspend :: "server \<Rightarrow> client \<Rightarrow> string \<Rightarrow> jsval \<Rightarrow> server" where
  "suspend s c toolName requestId =
     s\<lparr>awaiting := awaiting s @ [\<lparr>s_client = c, s_toolName = toolName, s_requestId = requestId\<rparr>]\<rparr>"

text \<open>
  The \<^verbatim>\<open>ai:request_\<close> branch up to \<^verbatim>\<open>await axios.post\<close>. Everything thrown inside its
  \<^verbatim>\<open>try\<close> is caught and answered with \<^verbatim>\<open>sendError\<close>.
\<close>

definition ai_request ::
  "environment \<Rightarrow> server \<Rightarrow> client \<Rightarrow> string \<Rightarrow> jsval \<Rightarrow> jsval \<Rightarrow> server" where
  "ai_request env s c toolName args requestId =
     (case projectId c of
        None \<Rightarrow> sendError s c ''Cannot request AI: Not currently in a project'' requestId
      | Some p \<Rightarrow>
          if p = [] then sendError s c ''Cannot request AI: Not currently in a project'' requestId
          else
            (case or_else (OPENAI_API_KEY env) (ANTHROPIC_API_KEY env) of
               None \<Rightarrow>
                 sendError s c
                   (''AI request failed: '' @ ''API key for '' @ toolName
                      @ '' is not configured in environment variables.'') requestId
             | Some apiKey \<Rightarrow>
                 if apiKey = [] then
                   sendError s c
                     (''AI request failed: '' @ ''API key for '' @ toolName
                        @ '' is not configured in environment variables.'') requestId
                 else if includes_str toolName ''openai'' then
                   (case prompt_of args of
                      Inl e \<Rightarrow> sendError s c (''AI request failed: '' @ message_of e) requestId
                    | Inr content \<Rightarrow>
                        suspend
                          (emit s (AxiosPost ''https://api.openai.com/v1/chat/completions''
                             (JObj [(''model'', JStr ''gpt-4o''),
                                    (''messages'', JArr
                                       [JObj [(''role'', JStr ''system''),
                                              (''content'', JStr ''You are a helpful assistant.'')],
                                        JObj [(''role'', JStr ''user''), (''content'', content)]])])
                             [(''Authorization'', ''Bearer '' @ apiKey),
                              (''Content-Type'', ''application/json'')]))
                          c toolName requestId)
                 else if includes_str toolName ''anthropic'' then
                   (case prompt_of args of
                      Inl e \<Rightarrow> sendError s c (''AI request failed: '' @ message_of e) requestId
                    | Inr content \<Rightarrow>
                        suspend
                          (emit s (AxiosPost ''https://api.anthropic.com/v1/messages''
                             (JObj [(''model'', JStr ''claude-3-opus-20240229''),
                                    (''messages'', JArr
                                       [JObj [(''role'', JStr ''user''), (''content'', content)]]),
                                    (''max_tokens'', JNum 4000)])
                             [(''x-api-key'', apiKey),
                              (''anthropic-version'', ''2023-06-01''),
                              (''Content-Type'', ''application/json'')]))
                          c toolName requestId)
                 else
                   sendError s c
                     (''AI request failed: '' @ ''Unknown AI provider in tool: '' @ toolName)
                     requestId))"

text \<open>\<^verbatim>\<open>v || ''\<close>.\<close>

definition or_empty :: "jsval \<Rightarrow> json" where
  "or_empty v = (case v of None \<Rightarrow> JStr [] | Some x \<Rightarrow> if truthy v then x else JStr [])"

text \<open>The rest of the \<^verbatim>\<open>ai:request_\<close> branch, run when \<^verbatim>\<open>axios.post\<close> has settled.\<close>

definition ai_resume :: "server \<Rightarrow> suspended \<Rightarrow> axios_error + jsval \<Rightarrow> server" where
  "ai_resume s k r =
     (case r of
        Inl (AxiosError upstream msg) \<Rightarrow>
          sendError s (s_client k)
            (''AI request failed: '' @
               (case upstream of Some m \<Rightarrow> if m \<noteq> [] then m else msg | None \<Rightarrow> msg))
            (s_requestId k)
      | Inr data \<Rightarrow>
          sendResponse s (s_client k)
            (JObj [(''success'', JBool True),
                   (''result'',
                      if includes_str (s_toolName k) ''openai''
                      then or_empty
                        (opt_prop (opt_prop (opt_first (opt_prop data ''choices'')) ''message'')
                           ''content'')
                      else if includes_str (s_toolName k) ''anthropic''
                      then or_empty (opt_prop (opt_first (opt_prop data ''content'')) ''text'')
                      else JStr [])])
            (s_requestId k))"

text \<open>
  What \<^verbatim>\<open>toolName.startsWith\<close> throws when \<^verbatim>\<open>toolName\<close> is not a string.
\<close>

fun startsWith_error :: "jsval \<Rightarrow> exn" where
  "startsWith_error None =
     TypeError (''Cannot read properties of undefined (reading '' @ quoted ''startsWith'' @ '')'')"
| "startsWith_error (Some JNull) =
     TypeError (''Cannot read properties of null (reading '' @ quoted ''startsWith'' @ '')'')"
| "startsWith_error (Some v) = TypeError ''toolName.startsWith is not a function''"

text \<open>
  \<^verbatim>\<open>handleMcpToolCall\<close> is \<^verbatim>\<open>async\<close> and its caller does not await it: an exception
  outside its \<^verbatim>\<open>try\<close> rejects the promise, which nobody handles (\<open>reject\<close>).
\<close>

definition handleMcpToolCall ::
  "environment \<Rightarrow> server \<Rightarrow> client \<Rightarrow> jsval \<Rightarrow> jsval \<Rightarrow> server" where
  "handleMcpToolCall env s c pl requestId =
     (case destructure ''payload'' pl ''toolName'' of
        Inl e \<Rightarrow> reject s c e
      | Inr toolName \<Rightarrow>
          (let args = opt_prop pl ''arguments'' in
           if toolName = Some (JStr ''project:join'') then project_join s c args requestId
           else if toolName = Some (JStr ''edit:send'') then edit_send s c args requestId
           else
             (case toolName of
                Some (JStr tn) \<Rightarrow>
                  if prefix ''ai:request_'' tn then ai_request env s c tn args requestId
                  else if tn = ''cursor:update'' then cursor_update s c args requestId
                  else sendError s c (''MCP tool '' @ quoted tn @ '' not implemented'') requestId
              | v \<Rightarrow> reject s c (startsWith_error v))))"

section \<open>Chat handler\<close>

text \<open>
  \<^verbatim>\<open>handleChatMessage\<close> is synchronous: what it throws reaches the \<^verbatim>\<open>catch\<close> of the
  message handler. It takes no request id, and its \<^verbatim>\<open>sendError\<close> calls pass none.
\<close>

definition handleChatMessage :: "server \<Rightarrow> client \<Rightarrow> jsval \<Rightarrow> exn + server" where
  "handleChatMessage s c pl =
     (case projectId c of
        None \<Rightarrow> Inr (sendError s c ''Cannot send chat: Not currently in a project'' None)
      | Some p \<Rightarrow>
          if p = [] then Inr (sendError s c ''Cannot send chat: Not currently in a project'' None)
          else
            (case destructure ''payload'' pl ''message'' of
               Inl e \<Rightarrow> Inl e
             | Inr (Some (JStr m)) \<Rightarrow>
                 if m = [] \<or> trim m = []
                 then Inr (sendError s c ''Invalid chat message'' None)
                 else Inr (broadcast s p
                             \<lparr>mtype = ''new_chat_message'',
                              payload = JObj [(''userId'', JStr (userId c)),
                                              (''userName'', JStr (userName c)),
                                              (''message'', JStr (trim m))]\<rparr>
                             None)
             | Inr _ \<Rightarrow> Inr (sendError s c ''Invalid chat message'' None)))"

section \<open>The connection closure: message, close, error and timer handlers\<close>

text \<open>\<^verbatim>\<open>clearTimeout(authTimeout)\<close>.\<close>

definition clearTimeout :: "server \<Rightarrow> string \<Rightarrow> server" where
  "clearTimeout s k =
     (case conns s k of
        None \<Rightarrow> s
      | Some cn \<Rightarrow> s\<lparr>conns := (conns s)(k \<mapsto> cn\<lparr>authTimeout := False\<rparr>)\<rparr>)"

text \<open>\<^verbatim>\<open>clients.set(k, client)\<close>: a new key goes last, a known key keeps its place.\<close>

definition clients_set :: "string list \<Rightarrow> string \<Rightarrow> string list" where
  "clients_set ks k = (if k \<in> set ks then ks else ks @ [k])"

text \<open>The closure's \<^verbatim>\<open>client = ...\<close> followed by \<^verbatim>\<open>clients.set(client.id, client)\<close>.\<close>

definition register_client :: "server \<Rightarrow> string \<Rightarrow> client \<Rightarrow> server" where
  "register_client s k c =
     (case conns s k of
        None \<Rightarrow> s
      | Some cn \<Rightarrow>
          s\<lparr>conns := (conns s)(k \<mapsto> cn\<lparr>client := Some c\<rparr>),
            clients := clients_set (clients s) (clientId c)\<rparr>)"

text \<open>The \<^verbatim>\<open>catch\<close> of the message handler.\<close>

definition invalid_format :: "server \<Rightarrow> string \<Rightarrow> server" where
  "invalid_format s k =
     emit s (WsSend k (JObj [(''type'', JStr ''error''),
                             (''payload'', JStr ''Invalid message format'')]))"

text \<open>
  The closure's \<^verbatim>\<open>client\<close> when \<^verbatim>\<open>client && client.isAuthenticated\<close>, \<open>None\<close> otherwise.
\<close>

definition authenticated :: "connection \<Rightarrow> client option" where
  "authenticated cn =
     (case client cn of None \<Rightarrow> None | Some c \<Rightarrow> if isAuthenticated c then Some c else None)"

text \<open>
  \<^verbatim>\<open>ws.on('message', ...)\<close> of connection \<open>connectionId\<close>; \<open>raw\<close> is what \<^verbatim>\<open>JSON.parse\<close>
  returns, \<open>None\<close> when it throws.
\<close>

definition on_message :: "environment \<Rightarrow> server \<Rightarrow> string \<Rightarrow> json option \<Rightarrow> server" where
  "on_message env s connectionId raw =
     (case conns s connectionId of
        None \<Rightarrow> s
      | Some cn \<Rightarrow>
          (case raw of
             None \<Rightarrow> invalid_format s connectionId
           | Some m \<Rightarrow>
               (case get_prop (Some m) ''type'' of
                  Inl e \<Rightarrow> invalid_format s connectionId
                | Inr ty \<Rightarrow>
                    (case authenticated cn of
                       None \<Rightarrow>
                         if ty = Some (JStr ''authenticate'') then
                           (let s1 = clearTimeout s connectionId in
                            case handleAuthenticate env connectionId (field m ''payload'') of
                              Inr c \<Rightarrow>
                                emit (register_client s1 connectionId c)
                                  (WsSend connectionId
                                     (JObj [(''type'', JStr ''auth_success''),
                                            (''payload'',
                                               JObj [(''userId'', JStr (userId c)),
                                                     (''userName'', JStr (userName c)),
                                                     (''clientId'', JStr (clientId c))])]))
                            | Inl authError \<Rightarrow>
                                ws_close
                                  (emit s1
                                     (WsSend connectionId
                                        (JObj [(''type'', JStr ''auth_failure''),
                                               (''payload'',
                                                  JObj [(''error'',
                                                         JStr (message_of authError))])])))
                                  connectionId (Some 1008) (Some ''Authentication failed''))
                         else
                           emit s (WsSend connectionId
                                     (JObj [(''type'', JStr ''error''),
                                            (''payload'', JStr ''Authentication required'')]))
                     | Some c \<Rightarrow>
                         if ty = Some (JStr ''mcp_tool_call'') then
                           handleMcpToolCall env s c (field m ''payload'') (field m ''requestId'')
                         else if ty = Some (JStr ''chat_message'') then
                           (case handleChatMessage s c (field m ''payload'') of
                              Inl e \<Rightarrow> invalid_format s connectionId
                            | Inr s' \<Rightarrow> s')
                         else
                           emit s (WsSend connectionId
                                     (mk_obj [(''type'', Some (JStr ''error'')),
                                              (''payload'', Some (JStr ''Unknown message type'')),
                                              (''requestId'', field m ''requestId'')]))))))"

text \<open>
  \<^verbatim>\<open>ws.on('close', ...)\<close>: the socket is closed when the event is emitted.
\<close>

definition on_close :: "server \<Rightarrow> string \<Rightarrow> server" where
  "on_close s connectionId =
     (case conns s connectionId of
        None \<Rightarrow> s
      | Some cn \<Rightarrow>
          (let s0 = s\<lparr>conns := (conns s)(connectionId \<mapsto> cn\<lparr>ws := CLOSED, authTimeout := False\<rparr>)\<rparr>
           in case authenticated cn of
                None \<Rightarrow> s0
              | Some c \<Rightarrow>
                  (let s1 = (case projectId c of
                               None \<Rightarrow> s0
                             | Some p \<Rightarrow> if p \<noteq> [] then leaveProject s0 c p else s0)
                   in s1\<lparr>clients := removeAll (clientId c) (clients s1)\<rparr>)))"

text \<open>\<^verbatim>\<open>ws.on('error', ...)\<close>: \<^verbatim>\<open>clearTimeout\<close>, then \<^verbatim>\<open>ws.close()\<close> with no argument.\<close>

definition on_error :: "server \<Rightarrow> string \<Rightarrow> server" where
  "on_error s connectionId =
     (case conns s connectionId of
        None \<Rightarrow> s
      | Some cn \<Rightarrow> ws_close (clearTimeout s connectionId) connectionId None None)"

text \<open>The callback of \<^verbatim>\<open>setTimeout(..., AUTH_TIMEOUT_MS)\<close>.\<close>

definition on_authTimeout :: "server \<Rightarrow> string \<Rightarrow> server" where
  "on_authTimeout s connectionId =
     (case conns s connectionId of
        None \<Rightarrow> s
      | Some cn \<Rightarrow>
          (case authenticated cn of
             None \<Rightarrow> ws_close s connectionId (Some 1008) (Some ''Authentication timeout'')
           | Some c \<Rightarrow> s))"

text \<open>\<^verbatim>\<open>wss.on('connection', ...)\<close> with the fresh id \<^verbatim>\<open>uuidv4()\<close> returned.\<close>

definition on_connection :: "server \<Rightarrow> string \<Rightarrow> server" where
  "on_connection s connectionId =
     s\<lparr>conns := (conns s)(connectionId \<mapsto> \<lparr>ws = OPEN, client = None, authTimeout = True\<rparr>)\<rparr>"

section \<open>The event loop\<close>

text \<open>
  One event runs to completion before the next. A connection id is used once
  (\<^verbatim>\<open>uuidv4\<close>); a socket emits \<^verbatim>\<open>message\<close> only until it has emitted \<^verbatim>\<open>close\<close>, and
  \<^verbatim>\<open>close\<close> once; the timer fires only while it is pending; a suspended tool call
  resumes once, when its \<^verbatim>\<open>axios.post\<close> settles. An event that cannot happen in the
  state leaves it as it is; once the process has exited, no event happens.
\<close>

datatype event =
    Connection string
  | Message string "json option"
  | Close string
  | SocketError string
  | AuthTimeout string
  | AxiosSettled nat "axios_error + jsval"

definition dispatch :: "environment \<Rightarrow> server \<Rightarrow> event \<Rightarrow> server" where
  "dispatch env s ev =
     (case ev of
        Connection k \<Rightarrow> if conns s k = None then on_connection s k else s
      | Message k raw \<Rightarrow> if ws_readyState s k \<noteq> CLOSED then on_message env s k raw else s
      | Close k \<Rightarrow> if ws_readyState s k \<noteq> CLOSED then on_close s k else s
      | SocketError k \<Rightarrow> if ws_readyState s k \<noteq> CLOSED then on_error s k else s
      | AuthTimeout k \<Rightarrow>
          (case conns s k of
             None \<Rightarrow> s
           | Some cn \<Rightarrow> if authTimeout cn then on_authTimeout (clearTimeout s k) k else s)
      | AxiosSettled n r \<Rightarrow>
          if n < length (awaiting s)
          then ai_resume (s\<lparr>awaiting := take n (awaiting s) @ drop (Suc n) (awaiting s)\<rparr>)
                 (awaiting s ! n) r
          else s)"

text \<open>One event: the handler it runs (\<open>dispatch\<close>), nothing once the process has exited.\<close>

definition step :: "environment \<Rightarrow> server \<Rightarrow> event \<Rightarrow> server" where
  "step env s ev = (if exited s then s else dispatch env s ev)"

definition run :: "environment \<Rightarrow> event list \<Rightarrow> server" where
  "run env evs = foldl (step env) init evs"

section \<open>Notions used in the statements\<close>

text \<open>
  What one round of the loop in \<^verbatim>\<open>broadcast\<close> sends for the client under key \<open>k\<close>:
  the list form of \<open>deliver\<close>, shown equal to it in \<open>deliver_eq\<close>.
\<close>

definition sends ::
  "server \<Rightarrow> string \<Rightarrow> string set \<Rightarrow> json \<Rightarrow> client option \<Rightarrow> string \<Rightarrow> effect list" where
  "sends s pid U j ex k =
     (case client_of s k of
        None \<Rightarrow> []
      | Some c \<Rightarrow>
          if isAuthenticated c \<and> projectId c = Some pid \<and> userId c \<in> U
             \<and> \<not> (case ex of None \<Rightarrow> False | Some x \<Rightarrow> clientId c = clientId x)
             \<and> ws_readyState s (clientId c) = OPEN
          then [WsSend (clientId c) j] else [])"

text \<open>Everything one call of \<^verbatim>\<open>broadcast\<close> adds to the effects (\<open>broadcast_eq\<close>).\<close>

definition broadcast_effects :: "server \<Rightarrow> string \<Rightarrow> message \<Rightarrow> client option \<Rightarrow> effect list" where
  "broadcast_effects s pid m ex =
     (case projects s pid of
        None \<Rightarrow> []
      | Some U \<Rightarrow> IoEmit pid (mtype m) # concat (map (sends s pid U (stringify m) ex) (clients s)))"

text \<open>The calls of \<^verbatim>\<open>ws.close\<close> among the effects.\<close>

fun is_close :: "effect \<Rightarrow> bool" where
  "is_close (WsClose k code reason) = True"
| "is_close e = False"

definition closes :: "server \<Rightarrow> effect list" where
  "closes s = filter is_close (effects s)"

text \<open>
  What holds of the registries after every event: the keys of \<open>clients\<close> are distinct
  and each has its \<^verbatim>\<open>Client\<close> object; every \<^verbatim>\<open>Client\<close> object carries the id of its
  connection, is authenticated, is never bound to the empty project id, and is in
  \<open>clients\<close> until its socket has closed; no project row holds an empty set; once the
  process has exited every socket is closed.
\<close>

definition server_inv :: "server \<Rightarrow> bool" where
  "server_inv s \<longleftrightarrow>
     distinct (clients s)
     \<and> (\<forall>k \<in> set (clients s). client_of s k \<noteq> None)
     \<and> (\<forall>k c. client_of s k = Some c \<longrightarrow>
            clientId c = k \<and> isAuthenticated c \<and> projectId c \<noteq> Some []
            \<and> (ws_readyState s k \<noteq> CLOSED \<longrightarrow> k \<in> set (clients s)))
     \<and> (\<forall>p. projects s p \<noteq> Some {})
     \<and> (exited s \<longrightarrow> (\<forall>k. ws_readyState s k = CLOSED))"

text \<open>The member set of a project: the set its row holds, empty when it has no row.\<close>

definition members :: "server \<Rightarrow> string \<Rightarrow> string set" where
  "members s pid = (case projects s pid of None \<Rightarrow> {} | Some U \<Rightarrow> U)"

text \<open>What a handler added to the effects on the way from \<open>s\<close> to \<open>s'\<close>.\<close>

definition added :: "server \<Rightarrow> server \<Rightarrow> effect list" where
  "added s s' = drop (length (effects s)) (effects s')"

text \<open>Connection \<open>k\<close> is open, bound to project \<open>pid\<close>, and its user is a member of \<open>pid\<close>.\<close>

definition open_member :: "server \<Rightarrow> string \<Rightarrow> string \<Rightarrow> bool" where
  "open_member s pid k =
     (ws_readyState s k = OPEN \<and>
      (case client_of s k of
         None \<Rightarrow> False
       | Some c \<Rightarrow> projectId c = Some pid \<and> userId c \<in> members s pid))"

text \<open>Connection \<open>k\<close> is the one the optional argument \<^verbatim>\<open>excludeClient\<close> names.\<close>

definition excluded :: "client option \<Rightarrow> string \<Rightarrow> bool" where
  "excluded ex k = (case ex of None \<Rightarrow> False | Some x \<Rightarrow> clientId x = k)"

text \<open>The calls of \<^verbatim>\<open>io.emit\<close> among the effects.\<close>

fun is_emit :: "effect \<Rightarrow> bool" where
  "is_emit (IoEmit p t) = True"
| "is_emit e = False"




text \<open>
  Every envelope among \<open>es\<close> that is written to the socket of client \<open>c\<close> carries the
  request id \<open>r\<close> (and none when \<open>r\<close> is \<^verbatim>\<open>undefined\<close>).
\<close>

definition echoes :: "client \<Rightarrow> jsval \<Rightarrow> effect list \<Rightarrow> bool" where
  "echoes c r es =
     list_all (\<lambda>e. case e of
                      WsSend k j \<Rightarrow> k \<noteq> clientId c \<or> field j ''requestId'' = r
                    | _ \<Rightarrow> True) es"

text \<open>What \<open>leaveProject\<close> adds to the effects.\<close>

definition leave_effects :: "server \<Rightarrow> client \<Rightarrow> string \<Rightarrow> effect list" where
  "leave_effects s c pid =
     (case projects s pid of
        None \<Rightarrow> []
      | Some U \<Rightarrow>
          if U - {userId c} = {} then []
          else broadcast_effects (s\<lparr>projects := (projects s)(pid \<mapsto> U - {userId c})\<rparr>)
                 pid (user_event ''user_left'' c) (Some c))"

text \<open>The success reply of \<^verbatim>\<open>project:join\<close>, as it is written to the socket.\<close>

definition join_reply :: "string \<Rightarrow> jsval \<Rightarrow> json" where
  "join_reply pid requestId =
     mk_obj [(''type'', Some (JStr ''mcp_tool_response'')),
             (''payload'', Some (JObj [(''success'', JBool True),
                                       (''message'', JStr (''Joined project '' @ pid))])),
             (''requestId'', requestId)]"

subsection \<open>A concrete configuration and run\<close>

text \<open>
  Two tokens verify (user \<open>u1\<close> and user \<open>u2\<close>); only the Anthropic key is set. In
  \<open>two_tabs\<close> user \<open>u1\<close> authenticates on two connections and joins project \<open>P\<close> on both.
\<close>

definition example_env :: environment where
  "example_env =
     \<lparr>jwt_verify = (\<lambda>t. if t = ''t1'' then Inr (Some ''u1'', Some ''Ann'')
                        else if t = ''t2'' then Inr (Some ''u2'', Some ''Bob'')
                        else Inl (JsonWebTokenError ''jwt malformed'')),
      OPENAI_API_KEY = None,
      ANTHROPIC_API_KEY = Some ''sk-ant''\<rparr>"

definition authenticate_msg :: "string \<Rightarrow> json" where
  "authenticate_msg t =
     JObj [(''type'', JStr ''authenticate''), (''payload'', JObj [(''token'', JStr t)])]"

definition tool_payload :: "string \<Rightarrow> json \<Rightarrow> json" where
  "tool_payload n args = JObj [(''toolName'', JStr n), (''arguments'', args)]"

definition tool_call :: "string \<Rightarrow> json \<Rightarrow> string \<Rightarrow> json" where
  "tool_call n args rid =
     JObj [(''type'', JStr ''mcp_tool_call''), (''payload'', tool_payload n args),
           (''requestId'', JStr rid)]"

definition join_call :: "string \<Rightarrow> string \<Rightarrow> json" where
  "join_call p rid = tool_call ''project:join'' (JObj [(''projectId'', JStr p)]) rid"

definition two_tabs :: "event list" where
  "two_tabs =
     [Connection ''a'', Message ''a'' (Some (authenticate_msg ''t1'')),
      Message ''a'' (Some (join_call ''P'' ''r1'')),
      Connection ''b'', Message ''b'' (Some (authenticate_msg ''t1'')),
      Message ''b'' (Some (join_call ''P'' ''r2''))]"

text \<open>The run \<open>two_tabs\<close> followed by the close of connection \<open>b\<close>.\<close>

definition tabs_after_close :: "event list" where
  "tabs_after_close = two_tabs @ [Close ''b'']"

text \<open>
  User \<open>u1\<close> on connection \<open>a\<close> and user \<open>u2\<close> on connection \<open>b\<close> are in project \<open>P\<close>;
  user \<open>u2\<close> on connection \<open>d\<close> is in project \<open>Q\<close>.
\<close>

definition two_projects :: "event list" where
  "two_projects =
     [Connection ''a'', Message ''a'' (Some (authenticate_msg ''t1'')),
      Message ''a'' (Some (join_call ''P'' ''r1'')),
      Connection ''b'', Message ''b'' (Some (authenticate_msg ''t2'')),
      Message ''b'' (Some (join_call ''P'' ''r2'')),
      Connection ''d'', Message ''d'' (Some (authenticate_msg ''t2'')),
      Message ''d'' (Some (join_call ''Q'' ''r3''))]"

section \<open>Broadcast, frame and invariant lemmas\<close>

lemma emit_fields [simp]:
  "conns (emit s e) = conns s" "clients (emit s e) = clients s"
  "projects (emit s e) = projects s" "awaiting (emit s e) = awaiting s"
  "effects (emit s e) = effects s @ [e]" "exited (emit s e) = exited s"
  by (simp_all add: emit_def)

lemma ws_readyState_effects [simp]:
  "ws_readyState (s\<lparr>effects := e\<rparr>) = ws_readyState s"
  "ws_readyState (emit s x) = ws_readyState s"
  by (rule ext, simp add: ws_readyState_def)+

lemma client_of_effects [simp]:
  "client_of (s\<lparr>effects := e\<rparr>) = client_of s"
  "client_of (emit s x) = client_of s"
  by (rule ext, simp add: client_of_def)+

lemma sends_effects [simp]:
  "sends (s\<lparr>effects := e\<rparr>) = sends s"
  "sends (emit s x) = sends s"
  by (intro ext, simp add: sends_def cong: option.case_cong)+

lemma deliver_eq:
  "deliver pid U j ex k s = s\<lparr>effects := effects s @ sends s pid U j ex k\<rparr>"
  by (auto simp: deliver_def sends_def emit_def split: option.splits)

lemma fold_deliver:
  "fold (deliver pid U j ex) ks s
     = s\<lparr>effects := effects s @ concat (map (sends s pid U j ex) ks)\<rparr>"
proof (induction ks arbitrary: s)
  case Nil
  show ?case by simp
next
  case (Cons k ks)
  show ?case
    using Cons.IH [of "s\<lparr>effects := effects s @ sends s pid U j ex k\<rparr>"]
    by (simp add: deliver_eq [of pid U j ex k s])
qed

lemma broadcast_eq:
  "broadcast s pid m ex = s\<lparr>effects := effects s @ broadcast_effects s pid m ex\<rparr>"
proof (cases "projects s pid")
  case None
  then show ?thesis by (simp add: broadcast_def broadcast_effects_def)
next
  case (Some U)
  with Some show ?thesis
    by (simp add: broadcast_def broadcast_effects_def fold_deliver emit_def)
qed

lemma closes_effects [simp]:
  "closes (s\<lparr>effects := e\<rparr>) = filter is_close e"
  "closes (emit s x) = closes s @ (if is_close x then [x] else [])"
  "closes (s\<lparr>conns := cs\<rparr>) = closes s"
  "closes (s\<lparr>clients := ks\<rparr>) = closes s"
  "closes (s\<lparr>projects := ps\<rparr>) = closes s"
  "closes (s\<lparr>awaiting := aw\<rparr>) = closes s"
  "closes (s\<lparr>exited := b\<rparr>) = closes s"
  by (simp_all add: closes_def)

lemma accessors_updates [simp]:
  "ws_readyState (s\<lparr>clients := ks\<rparr>) = ws_readyState s"
  "ws_readyState (s\<lparr>projects := ps\<rparr>) = ws_readyState s"
  "ws_readyState (s\<lparr>awaiting := aw\<rparr>) = ws_readyState s"
  "client_of (s\<lparr>clients := ks\<rparr>) = client_of s"
  "client_of (s\<lparr>projects := ps\<rparr>) = client_of s"
  "client_of (s\<lparr>awaiting := aw\<rparr>) = client_of s"
  "ws_readyState (s\<lparr>exited := b\<rparr>) = ws_readyState s"
  "client_of (s\<lparr>exited := b\<rparr>) = client_of s"
  by (rule ext, simp add: ws_readyState_def client_of_def)+

lemma filter_close_sends [simp]: "filter is_close (sends s pid U j ex k) = []"
  by (simp add: sends_def split: option.split)

lemma filter_close_broadcast_effects [simp]:
  "filter is_close (broadcast_effects s pid m ex) = []"
  by (simp add: broadcast_effects_def filter_concat comp_def split: option.split)

lemma broadcast_fields [simp]:
  "conns (broadcast s pid m ex) = conns s"
  "clients (broadcast s pid m ex) = clients s"
  "exited (broadcast s pid m ex) = exited s"
  "projects (broadcast s pid m ex) = projects s"
  "awaiting (broadcast s pid m ex) = awaiting s"
  "closes (broadcast s pid m ex) = closes s"
  "ws_readyState (broadcast s pid m ex) = ws_readyState s"
  "client_of (broadcast s pid m ex) = client_of s"
  by (simp_all add: broadcast_eq closes_def)

lemma sendError_fields [simp]:
  "conns (sendError s c err r) = conns s"
  "clients (sendError s c err r) = clients s"
  "exited (sendError s c err r) = exited s"
  "projects (sendError s c err r) = projects s"
  "awaiting (sendError s c err r) = awaiting s"
  "closes (sendError s c err r) = closes s"
  "ws_readyState (sendError s c err r) = ws_readyState s"
  "client_of (sendError s c err r) = client_of s"
  by (simp_all add: sendError_def)

lemma sendResponse_fields [simp]:
  "conns (sendResponse s c p r) = conns s"
  "clients (sendResponse s c p r) = clients s"
  "exited (sendResponse s c p r) = exited s"
  "projects (sendResponse s c p r) = projects s"
  "awaiting (sendResponse s c p r) = awaiting s"
  "closes (sendResponse s c p r) = closes s"
  "ws_readyState (sendResponse s c p r) = ws_readyState s"
  "client_of (sendResponse s c p r) = client_of s"
  by (simp_all add: sendResponse_def)

lemma process_exit_fields [simp]:
  "clients (process_exit s) = clients s"
  "projects (process_exit s) = projects s"
  "awaiting (process_exit s) = awaiting s"
  "effects (process_exit s) = effects s"
  "closes (process_exit s) = closes s"
  "exited (process_exit s) = True"
  by (simp_all add: process_exit_def closes_def)

lemma process_exit_accessors [simp]:
  "client_of (process_exit s) = client_of s"
  "ws_readyState (process_exit s) = (\<lambda>k. CLOSED)"
  by (rule ext, simp add: process_exit_def client_of_def ws_readyState_def split: option.split)+

lemma reject_fields [simp]:
  "clients (reject s c e) = clients s"
  "projects (reject s c e) = projects s"
  "awaiting (reject s c e) = awaiting s"
  "closes (reject s c e) = closes s"
  "exited (reject s c e) = True"
  "ws_readyState (reject s c e) = (\<lambda>k. CLOSED)"
  "client_of (reject s c e) = client_of s"
  by (simp_all add: reject_def)

lemma invalid_format_fields [simp]:
  "conns (invalid_format s k) = conns s"
  "clients (invalid_format s k) = clients s"
  "exited (invalid_format s k) = exited s"
  "projects (invalid_format s k) = projects s"
  "awaiting (invalid_format s k) = awaiting s"
  "closes (invalid_format s k) = closes s"
  "ws_readyState (invalid_format s k) = ws_readyState s"
  "client_of (invalid_format s k) = client_of s"
  by (simp_all add: invalid_format_def)

lemma suspend_fields [simp]:
  "conns (suspend s c t r) = conns s"
  "clients (suspend s c t r) = clients s"
  "exited (suspend s c t r) = exited s"
  "projects (suspend s c t r) = projects s"
  "closes (suspend s c t r) = closes s"
  "ws_readyState (suspend s c t r) = ws_readyState s"
  "client_of (suspend s c t r) = client_of s"
  by (simp_all add: suspend_def)

lemma leaveProject_fields [simp]:
  "conns (leaveProject s c pid) = conns s"
  "clients (leaveProject s c pid) = clients s"
  "exited (leaveProject s c pid) = exited s"
  "awaiting (leaveProject s c pid) = awaiting s"
  "closes (leaveProject s c pid) = closes s"
  "ws_readyState (leaveProject s c pid) = ws_readyState s"
  "client_of (leaveProject s c pid) = client_of s"
  by (simp_all add: leaveProject_def split: option.split)

lemma leaveProject_projects:
  "projects (leaveProject s c pid) =
     (case projects s pid of
        None \<Rightarrow> projects s
      | Some U \<Rightarrow> if U - {userId c} = {} then (projects s)(pid := None)
                  else (projects s)(pid \<mapsto> U - {userId c}))"
  by (simp add: leaveProject_def split: option.split)

lemma set_projectId_fields [simp]:
  "clients (set_projectId s c pid) = clients s"
  "exited (set_projectId s c pid) = exited s"
  "projects (set_projectId s c pid) = projects s"
  "awaiting (set_projectId s c pid) = awaiting s"
  "effects (set_projectId s c pid) = effects s"
  "closes (set_projectId s c pid) = closes s"
  by (simp_all add: set_projectId_def closes_def split: option.split)

lemma set_projectId_ws [simp]: "ws_readyState (set_projectId s c pid) = ws_readyState s"
  by (rule ext) (simp add: set_projectId_def ws_readyState_def split: option.split)

lemma set_projectId_client_of:
  "client_of (set_projectId s c pid) k =
     (if k = clientId c then map_option (\<lambda>obj. obj\<lparr>projectId := Some pid\<rparr>) (client_of s k)
      else client_of s k)"
  by (simp add: set_projectId_def client_of_def split: option.split)

lemma ensure_project_fields [simp]:
  "conns (ensure_project s pid) = conns s"
  "clients (ensure_project s pid) = clients s"
  "exited (ensure_project s pid) = exited s"
  "awaiting (ensure_project s pid) = awaiting s"
  "effects (ensure_project s pid) = effects s"
  "closes (ensure_project s pid) = closes s"
  "ws_readyState (ensure_project s pid) = ws_readyState s"
  "client_of (ensure_project s pid) = client_of s"
  by (simp_all add: ensure_project_def closes_def)

lemma add_member_fields [simp]:
  "conns (add_member s pid u) = conns s"
  "clients (add_member s pid u) = clients s"
  "exited (add_member s pid u) = exited s"
  "awaiting (add_member s pid u) = awaiting s"
  "effects (add_member s pid u) = effects s"
  "closes (add_member s pid u) = closes s"
  "ws_readyState (add_member s pid u) = ws_readyState s"
  "client_of (add_member s pid u) = client_of s"
  by (simp_all add: add_member_def closes_def split: option.split)

lemma join_projects:
  "projects (add_member (ensure_project s pid) pid u) =
     (projects s)(pid \<mapsto> insert u (case projects s pid of None \<Rightarrow> {} | Some U \<Rightarrow> U))"
  by (auto simp: add_member_def ensure_project_def split: option.split)

lemmas handler_splits =
  option.split sum.split json.split list.split prod.split if_split verify_error.split

lemma project_join_fields [simp]:
  "clients (project_join s c args r) = clients s"
  "awaiting (project_join s c args r) = awaiting s"
  "closes (project_join s c args r) = closes s"
  by (simp_all add: project_join_def Let_def split: handler_splits)

lemma edit_send_fields [simp]:
  "clients (edit_send s c args r) = clients s"
  "projects (edit_send s c args r) = projects s"
  "awaiting (edit_send s c args r) = awaiting s"
  "closes (edit_send s c args r) = closes s"
  "client_of (edit_send s c args r) = client_of s"
  by (simp_all add: edit_send_def split: handler_splits)

lemma cursor_update_fields [simp]:
  "clients (cursor_update s c args r) = clients s"
  "projects (cursor_update s c args r) = projects s"
  "awaiting (cursor_update s c args r) = awaiting s"
  "closes (cursor_update s c args r) = closes s"
  "client_of (cursor_update s c args r) = client_of s"
  by (simp_all add: cursor_update_def split: handler_splits)

lemma ai_request_fields [simp]:
  "conns (ai_request env s c t args r) = conns s"
  "clients (ai_request env s c t args r) = clients s"
  "exited (ai_request env s c t args r) = exited s"
  "projects (ai_request env s c t args r) = projects s"
  "closes (ai_request env s c t args r) = closes s"
  "ws_readyState (ai_request env s c t args r) = ws_readyState s"
  "client_of (ai_request env s c t args r) = client_of s"
  by (simp_all add: ai_request_def split: handler_splits)

lemma ai_resume_fields [simp]:
  "conns (ai_resume s k x) = conns s"
  "clients (ai_resume s k x) = clients s"
  "exited (ai_resume s k x) = exited s"
  "projects (ai_resume s k x) = projects s"
  "awaiting (ai_resume s k x) = awaiting s"
  "closes (ai_resume s k x) = closes s"
  "ws_readyState (ai_resume s k x) = ws_readyState s"
  "client_of (ai_resume s k x) = client_of s"
  by (simp_all add: ai_resume_def split: sum.split axios_error.split)

lemma handleChatMessage_fields:
  assumes "handleChatMessage s c pl = Inr s'"
  shows "conns s' = conns s" "clients s' = clients s" "projects s' = projects s"
    "awaiting s' = awaiting s" "closes s' = closes s"
    "ws_readyState s' = ws_readyState s" "client_of s' = client_of s" "exited s' = exited s"
  using assms
  by (auto simp: handleChatMessage_def split: option.splits sum.splits json.splits if_splits)

lemma handleMcpToolCall_fields [simp]:
  "clients (handleMcpToolCall env s c pl r) = clients s"
  "closes (handleMcpToolCall env s c pl r) = closes s"
  by (simp_all add: handleMcpToolCall_def Let_def split: handler_splits)

lemma server_inv_frame:
  assumes "client_of s' = client_of s" "ws_readyState s' = ws_readyState s"
    "clients s' = clients s" "projects s' = projects s" "exited s' = exited s"
  shows "server_inv s' = server_inv s"
  by (simp add: server_inv_def assms)

lemma server_inv_simple [simp]:
  "server_inv (emit s e) = server_inv s"
  "server_inv (s\<lparr>effects := es\<rparr>) = server_inv s"
  "server_inv (s\<lparr>awaiting := aw\<rparr>) = server_inv s"
  "server_inv (sendError s c err r) = server_inv s"
  "server_inv (sendResponse s c p r) = server_inv s"
  "server_inv (broadcast s pid m ex) = server_inv s"
  "server_inv (invalid_format s k) = server_inv s"
  "server_inv (suspend s c t r) = server_inv s"
  "server_inv (ai_request env s c t args r) = server_inv s"
  "server_inv (ai_resume s su x) = server_inv s"
  by (rule server_inv_frame; simp)+

lemma server_inv_reject [simp]: "server_inv s \<Longrightarrow> server_inv (reject s c e)"
  by (simp add: server_inv_def)

lemma server_inv_edit_send [simp]: "server_inv s \<Longrightarrow> server_inv (edit_send s c args r)"
  by (simp add: edit_send_def split: handler_splits)

lemma server_inv_cursor_update [simp]:
  "server_inv s \<Longrightarrow> server_inv (cursor_update s c args r)"
  by (simp add: cursor_update_def split: handler_splits)

lemma server_inv_leaveProject: "server_inv s \<Longrightarrow> server_inv (leaveProject s c pid)"
  by (simp add: server_inv_def leaveProject_projects split: option.split)

lemma server_inv_set_projectId:
  "server_inv s \<Longrightarrow> pid \<noteq> [] \<Longrightarrow> server_inv (set_projectId s c pid)"
  by (auto simp: server_inv_def set_projectId_client_of split: if_splits)

lemma server_inv_add_member:
  "server_inv s \<Longrightarrow> server_inv (add_member (ensure_project s pid) pid u)"
  by (simp add: server_inv_def join_projects)

lemma server_inv_project_join: "server_inv s \<Longrightarrow> server_inv (project_join s c args r)"
  by (simp add: project_join_def Let_def server_inv_leaveProject server_inv_set_projectId
      server_inv_add_member split: handler_splits)

lemma server_inv_handleMcpToolCall:
  "server_inv s \<Longrightarrow> server_inv (handleMcpToolCall env s c pl r)"
  by (simp add: handleMcpToolCall_def Let_def server_inv_project_join split: handler_splits)

lemma server_inv_handleChatMessage:
  "server_inv s \<Longrightarrow> handleChatMessage s c pl = Inr s' \<Longrightarrow> server_inv s'"
  using handleChatMessage_fields [of s c pl s'] server_inv_frame [of s' s] by simp

lemma handleAuthenticate_client:
  "handleAuthenticate env k pl = Inr c \<Longrightarrow>
     clientId c = k \<and> isAuthenticated c \<and> projectId c = None"
  by (auto simp: handleAuthenticate_def split: sum.splits option.splits json.splits
      if_splits verify_error.splits prod.splits)

lemma clearTimeout_fields [simp]:
  "clients (clearTimeout s k) = clients s"
  "exited (clearTimeout s k) = exited s"
  "projects (clearTimeout s k) = projects s"
  "awaiting (clearTimeout s k) = awaiting s"
  "effects (clearTimeout s k) = effects s"
  "closes (clearTimeout s k) = closes s"
  by (simp_all add: clearTimeout_def closes_def split: option.split)

lemma clearTimeout_accessors [simp]:
  "ws_readyState (clearTimeout s k) = ws_readyState s"
  "client_of (clearTimeout s k) = client_of s"
  by (rule ext, simp add: clearTimeout_def ws_readyState_def client_of_def split: option.split)+

lemma server_inv_clearTimeout [simp]: "server_inv (clearTimeout s k) = server_inv s"
  by (rule server_inv_frame; simp)

lemma ws_close_fields [simp]:
  "clients (ws_close s k code reason) = clients s"
  "exited (ws_close s k code reason) = exited s"
  "projects (ws_close s k code reason) = projects s"
  "awaiting (ws_close s k code reason) = awaiting s"
  "effects (ws_close s k code reason) = effects s @ [WsClose k code reason]"
  "closes (ws_close s k code reason) = closes s @ [WsClose k code reason]"
  by (simp_all add: ws_close_def Let_def closes_def emit_def split: option.split)

lemma ws_close_client_of [simp]: "client_of (ws_close s k code reason) = client_of s"
  by (rule ext) (simp add: ws_close_def Let_def client_of_def emit_def split: option.split)

lemma ws_close_readyState:
  "ws_readyState (ws_close s k code reason) k' =
     (if k' = k \<and> ws_readyState s k = OPEN then CLOSING else ws_readyState s k')"
  by (simp add: ws_close_def Let_def ws_readyState_def emit_def split: option.split)

lemma server_inv_ws_close: "server_inv s \<Longrightarrow> server_inv (ws_close s k code reason)"
  by (auto simp: server_inv_def ws_close_readyState split: if_splits)

lemma authenticated_None:
  "server_inv s \<Longrightarrow> conns s k = Some cn \<Longrightarrow> authenticated cn = None \<Longrightarrow> client_of s k = None"
  by (auto simp: server_inv_def authenticated_def client_of_def split: option.splits if_splits)

lemma authenticated_Some:
  "conns s k = Some cn \<Longrightarrow> authenticated cn = Some c \<Longrightarrow> client_of s k = Some c"
  by (auto simp: authenticated_def client_of_def split: option.splits if_splits)

lemma server_inv_register:
  assumes "server_inv s" "conns s k = Some cn" "client_of s k = None"
    "clientId c = k" "isAuthenticated c" "projectId c = None"
  shows "server_inv (register_client s k c)"
proof -
  have notin: "k \<notin> set (clients s)"
    using assms(1,3) by (auto simp: server_inv_def)
  have co: "client_of (register_client s k c) = (client_of s)(k \<mapsto> c)"
    using assms(2) by (auto simp: register_client_def client_of_def)
  have ws: "ws_readyState (register_client s k c) = ws_readyState s"
    using assms(2) by (auto simp: register_client_def ws_readyState_def)
  have cl: "clients (register_client s k c) = clients s @ [k]"
    using assms(2,4) notin by (simp add: register_client_def clients_set_def)
  have pr: "projects (register_client s k c) = projects s"
    using assms(2) by (simp add: register_client_def)
  have ex: "exited (register_client s k c) = exited s"
    using assms(2) by (simp add: register_client_def)
  show ?thesis
    using assms(1,4,5,6) notin unfolding server_inv_def co ws cl pr ex by auto
qed

lemma server_inv_on_message:
  assumes "server_inv s"
  shows "server_inv (on_message env s k raw)"
proof (cases "conns s k")
  case None
  then show ?thesis using assms by (simp add: on_message_def)
next
  case (Some cn)
  show ?thesis
  proof (cases "authenticated cn")
    case None
    have no: "client_of s k = None"
      using assms Some None by (rule authenticated_None)
    have reg: "server_inv (register_client (clearTimeout s k) k c)"
      if "handleAuthenticate env k pl = Inr c" for c pl
    proof -
      obtain cn' where "conns (clearTimeout s k) k = Some cn'"
        using Some by (simp add: clearTimeout_def)
      then show ?thesis
        using handleAuthenticate_client [OF that] assms no
        by (intro server_inv_register [where cn = cn']) simp_all
    qed
    show ?thesis
      using assms Some None reg
      by (simp add: on_message_def Let_def server_inv_ws_close split: handler_splits)
  next
    case (Some c)
    show ?thesis
      using assms \<open>conns s k = Some cn\<close> Some
      by (auto simp: on_message_def server_inv_handleMcpToolCall
          intro: server_inv_handleChatMessage split: handler_splits)
  qed
qed

lemma server_inv_on_close:
  assumes "server_inv s"
  shows "server_inv (on_close s k)"
proof (cases "conns s k")
  case None
  then show ?thesis using assms by (simp add: on_close_def)
next
  case (Some cn)
  define s0 where "s0 = s\<lparr>conns := (conns s)(k \<mapsto> cn\<lparr>ws := CLOSED, authTimeout := False\<rparr>)\<rparr>"
  have co: "client_of s0 = client_of s"
    using Some by (auto simp: s0_def client_of_def)
  have ws: "ws_readyState s0 = (ws_readyState s)(k := CLOSED)"
    by (auto simp: s0_def ws_readyState_def)
  have s0_inv: "server_inv s0"
    using assms by (auto simp: server_inv_def co ws) (simp_all add: s0_def)
  show ?thesis
  proof (cases "authenticated cn")
    case None
    then show ?thesis
      using s0_inv Some by (simp add: on_close_def Let_def s0_def)
  next
    case (Some c)
    have ck: "clientId c = k"
      using assms authenticated_Some [OF \<open>conns s k = Some cn\<close> Some]
      by (simp add: server_inv_def)
    define s1 where "s1 = (case projectId c of None \<Rightarrow> s0
        | Some p \<Rightarrow> if p \<noteq> [] then leaveProject s0 c p else s0)"
    have s1_inv: "server_inv s1"
      using s0_inv by (simp add: s1_def server_inv_leaveProject split: option.split)
    have s1_f: "client_of s1 = client_of s0" "ws_readyState s1 = ws_readyState s0"
      "clients s1 = clients s0"
      by (simp_all add: s1_def split: option.split)
    have eq: "on_close s k = s1\<lparr>clients := removeAll k (clients s1)\<rparr>"
      unfolding s1_def s0_def
      using Some \<open>conns s k = Some cn\<close> ck
      by (simp add: on_close_def Let_def)
    have "server_inv (s1\<lparr>clients := removeAll k (clients s1)\<rparr>)"
      using s1_inv unfolding server_inv_def
      by (auto simp: s1_f ws distinct_removeAll)
    then show ?thesis
      by (simp only: eq)
  qed
qed

lemma server_inv_on_error: "server_inv s \<Longrightarrow> server_inv (on_error s k)"
  by (simp add: on_error_def server_inv_ws_close split: option.split)

lemma server_inv_on_authTimeout: "server_inv s \<Longrightarrow> server_inv (on_authTimeout s k)"
  by (simp add: on_authTimeout_def server_inv_ws_close split: option.split)

lemma server_inv_on_connection:
  "server_inv s \<Longrightarrow> \<not> exited s \<Longrightarrow> conns s k = None \<Longrightarrow> server_inv (on_connection s k)"
  by (auto simp: server_inv_def on_connection_def client_of_def ws_readyState_def
      split: option.splits)

lemma server_inv_dispatch:
  "server_inv s \<Longrightarrow> \<not> exited s \<Longrightarrow> server_inv (dispatch env s ev)"
  by (cases ev)
    (simp_all add: dispatch_def server_inv_on_connection server_inv_on_message
      server_inv_on_close server_inv_on_error server_inv_on_authTimeout split: option.split)

lemma server_inv_step: "server_inv s \<Longrightarrow> server_inv (step env s ev)"
  by (simp add: step_def server_inv_dispatch)

lemma server_inv_init: "server_inv init"
  by (simp add: server_inv_def init_def client_of_def)

lemma run_snoc: "run env (evs @ [ev]) = step env (run env evs) ev"
  by (simp add: run_def)

lemma server_inv_run: "server_inv (run env evs)"
  by (induction evs rule: rev_induct) (simp_all add: run_snoc server_inv_step, simp add: run_def server_inv_init)

section \<open>The session registry\<close>

text \<open>
  C2. In every state the server reaches (after every event run to completion: a join,
  a switch of project, a close), a project has a row if and only if its member set is
  not empty, so a project whose set becomes empty has lost its row; and a
  \<^verbatim>\<open>project:join\<close> to a project id that has no row leaves that row holding the joining
  user alone.
\<close>

theorem session_row_iff_members:
  "((projects (run env evs) S \<noteq> None) = (members (run env evs) S \<noteq> {}))
   \<and> (Q \<noteq> [] \<and> projects (run env evs) Q = None
        \<and> destructure ''payload'' pl ''toolName'' = Inr (Some (JStr ''project:join''))
        \<and> get_prop (opt_prop pl ''arguments'') ''projectId'' = Inr (Some (JStr Q))
      \<longrightarrow> projects (handleMcpToolCall env (run env evs) c pl r) Q = Some {userId c})"
proof (intro conjI impI)
  have "projects (run env evs) S \<noteq> Some {}"
    using server_inv_run [of env evs] by (simp add: server_inv_def)
  then show "(projects (run env evs) S \<noteq> None) = (members (run env evs) S \<noteq> {})"
    by (cases "projects (run env evs) S") (simp_all add: members_def)
next
  let ?s = "run env evs"
  assume h: "Q \<noteq> [] \<and> projects ?s Q = None
        \<and> destructure ''payload'' pl ''toolName'' = Inr (Some (JStr ''project:join''))
        \<and> get_prop (opt_prop pl ''arguments'') ''projectId'' = Inr (Some (JStr Q))"
  have leave: "projects (leaveProject ?s c old) Q = None" if "old \<noteq> Q" for old
    using h that by (simp add: leaveProject_projects split: option.split)
  have "projects (project_join ?s c (opt_prop pl ''arguments'') r) Q = Some {userId c}"
    using h leave
    by (simp add: project_join_def Let_def join_projects split: option.split)
  then show "projects (handleMcpToolCall env ?s c pl r) Q = Some {userId c}"
    using h by (simp add: handleMcpToolCall_def Let_def)
qed

theorem session_row_iff_members_witness:
  "(''P'' \<noteq> []
    \<and> projects (run example_env (two_tabs @ [Close ''a'', Close ''b''])) ''P'' = None
    \<and> destructure ''payload'' (Some (tool_payload ''project:join'' (JObj [(''projectId'', JStr ''P'')])))
          ''toolName'' = Inr (Some (JStr ''project:join''))
    \<and> get_prop (opt_prop (Some (tool_payload ''project:join'' (JObj [(''projectId'', JStr ''P'')])))
          ''arguments'') ''projectId'' = Inr (Some (JStr ''P'')))
   \<and> projects (handleMcpToolCall example_env (run example_env (two_tabs @ [Close ''a'', Close ''b'']))
         \<lparr>clientId = ''c'', userId = ''u2'', userName = ''Bob'', isAuthenticated = True,
          projectId = None\<rparr>
         (Some (tool_payload ''project:join'' (JObj [(''projectId'', JStr ''P'')]))) None) ''P''
       = Some {''u2''}"
proof -
  let ?s = "run example_env (two_tabs @ [Close ''a'', Close ''b''])"
  let ?pl = "Some (tool_payload ''project:join'' (JObj [(''projectId'', JStr ''P'')]))"
  let ?c = "\<lparr>clientId = ''c'', userId = ''u2'', userName = ''Bob'', isAuthenticated = True,
          projectId = None\<rparr>"
  have h: "''P'' \<noteq> [] \<and> projects ?s ''P'' = None
    \<and> destructure ''payload'' ?pl ''toolName'' = Inr (Some (JStr ''project:join''))
    \<and> get_prop (opt_prop ?pl ''arguments'') ''projectId'' = Inr (Some (JStr ''P''))"
    by code_simp
  from session_row_iff_members [of example_env "two_tabs @ [Close ''a'', Close ''b'']" "''P''" "''P''" ?pl ?c None]
  have "projects (handleMcpToolCall example_env ?s ?c ?pl None) ''P'' = Some {userId ?c}"
    using h by blast
  then show ?thesis using h by simp
qed

section \<open>Broadcast delivery\<close>

lemma added_broadcast [simp]: "added s (broadcast s pid m ex) = broadcast_effects s pid m ex"
  by (simp add: added_def broadcast_eq)

lemma count_list_concat_map:
  "count_list (concat (map f ks)) x = sum_list (map (\<lambda>k. count_list (f k) x) ks)"
  by (induction ks) simp_all

lemma sum_list_single:
  assumes "distinct ks" "\<And>k'. k' \<in> set ks \<Longrightarrow> g k' = (if k' = k \<and> E then 1 else (0::nat))"
  shows "sum_list (map g ks) = (if k \<in> set ks \<and> E then 1 else 0)"
  using assms
proof (induction ks)
  case Nil
  then show ?case by simp
next
  case (Cons a ks)
  then have "sum_list (map g ks) = (if k \<in> set ks \<and> E then 1 else 0)" by simp
  moreover have "g a = (if a = k \<and> E then 1 else 0)" using Cons.prems(2) by simp
  moreover have "a \<notin> set ks" using Cons.prems(1) by simp
  ultimately show ?case by auto
qed

lemma count_sends:
  assumes "server_inv s" "k' \<in> set (clients s)"
  shows "count_list (sends s pid U j ex k') (WsSend k j)
           = (if k' = k \<and> (ws_readyState s k = OPEN
                \<and> (case client_of s k of None \<Rightarrow> False
                    | Some c \<Rightarrow> projectId c = Some pid \<and> userId c \<in> U)
                \<and> \<not> excluded ex k) then 1 else 0)"
proof -
  obtain c where c: "client_of s k' = Some c" "clientId c = k'" "isAuthenticated c"
    using assms by (auto simp: server_inv_def)
  show ?thesis
  proof (cases "k' = k")
    case True
    then have "client_of s k = Some c" "clientId c = k" using c by simp_all
    then show ?thesis
      using True c(3) by (cases ex) (simp_all add: sends_def excluded_def)
  next
    case False
    then show ?thesis using c by (simp add: sends_def)
  qed
qed

lemma sends_only:
  "e \<in> set (sends s pid U j ex k') \<Longrightarrow> \<exists>k. e = WsSend k j"
  by (auto simp: sends_def split: option.splits if_splits)

lemma count_broadcast_effects:
  assumes "server_inv s"
  shows "count_list (broadcast_effects s pid m ex) (WsSend k (stringify m))
           = (if open_member s pid k \<and> \<not> excluded ex k then 1 else 0)"
proof (cases "projects s pid")
  case None
  then show ?thesis
    by (simp add: broadcast_effects_def open_member_def members_def split: option.split)
next
  case (Some U)
  have d: "distinct (clients s)" using assms by (simp add: server_inv_def)
  have reg: "k \<in> set (clients s)"
    if "ws_readyState s k = OPEN" "client_of s k = Some c" for c
    using assms that by (auto simp: server_inv_def)
  have "count_list (concat (map (sends s pid U (stringify m) ex) (clients s)))
          (WsSend k (stringify m))
        = (if k \<in> set (clients s) \<and> (ws_readyState s k = OPEN
                \<and> (case client_of s k of None \<Rightarrow> False
                    | Some c \<Rightarrow> projectId c = Some pid \<and> userId c \<in> U)
                \<and> \<not> excluded ex k) then 1 else 0)"
    unfolding count_list_concat_map
    by (rule sum_list_single [OF d]) (rule count_sends [OF assms])
  also have "\<dots> = (if open_member s pid k \<and> \<not> excluded ex k then 1 else 0)"
    using Some reg by (auto simp: open_member_def members_def split: option.splits)
  finally show ?thesis
    using Some by (simp add: broadcast_effects_def)
qed

lemma broadcast_effects_only:
  "e \<in> set (broadcast_effects s pid m ex) \<Longrightarrow>
     e = IoEmit pid (mtype m) \<or> (\<exists>k. e = WsSend k (stringify m))"
  by (auto simp: broadcast_effects_def split: option.splits dest: sends_only)

text \<open>
  C1. In every state the server reaches, \<^verbatim>\<open>broadcast(S, m, exclude)\<close> only adds effects,
  and among them it sends the envelope \<open>m\<close> exactly once to each connection that is
  open, bound to \<open>S\<close>, with its user in the member set of \<open>S\<close>, and is not the excluded
  one; it sends it to no other connection (the excluded one among them), and it sends
  nothing but \<open>m\<close>.
\<close>

theorem broadcast_delivers_once:
  "effects (broadcast (run env evs) S m ex)
     = effects (run env evs) @ added (run env evs) (broadcast (run env evs) S m ex)
   \<and> count_list (added (run env evs) (broadcast (run env evs) S m ex)) (WsSend k (stringify m))
     = (if open_member (run env evs) S k \<and> \<not> excluded ex k then 1 else 0)
   \<and> (\<forall>k' j. WsSend k' j \<in> set (added (run env evs) (broadcast (run env evs) S m ex))
         \<longrightarrow> j = stringify m)"
proof (intro conjI allI impI)
  show "effects (broadcast (run env evs) S m ex)
     = effects (run env evs) @ added (run env evs) (broadcast (run env evs) S m ex)"
    by (simp add: broadcast_eq added_def)
  show "count_list (added (run env evs) (broadcast (run env evs) S m ex)) (WsSend k (stringify m))
     = (if open_member (run env evs) S k \<and> \<not> excluded ex k then 1 else 0)"
    by (simp add: count_broadcast_effects server_inv_run)
  fix k' j
  assume "WsSend k' j \<in> set (added (run env evs) (broadcast (run env evs) S m ex))"
  then show "j = stringify m"
    by (auto dest: broadcast_effects_only)
qed


theorem broadcast_delivers_once_witness:
  "open_member (run example_env two_tabs) ''P'' ''b''
   \<and> \<not> excluded (client_of (run example_env two_tabs) ''a'') ''b''
   \<and> excluded (client_of (run example_env two_tabs) ''a'') ''a''
   \<and> count_list
         (added (run example_env two_tabs)
            (broadcast (run example_env two_tabs) ''P''
               \<lparr>mtype = ''cursor_moved'', payload = JNull\<rparr>
               (client_of (run example_env two_tabs) ''a'')))
         (WsSend ''b'' (stringify \<lparr>mtype = ''cursor_moved'', payload = JNull\<rparr>)) = 1
   \<and> count_list
         (added (run example_env two_tabs)
            (broadcast (run example_env two_tabs) ''P''
               \<lparr>mtype = ''cursor_moved'', payload = JNull\<rparr>
               (client_of (run example_env two_tabs) ''a'')))
         (WsSend ''a'' (stringify \<lparr>mtype = ''cursor_moved'', payload = JNull\<rparr>)) = 0"
proof -
  let ?s = "run example_env two_tabs"
  let ?m = "\<lparr>mtype = ''cursor_moved'', payload = JNull\<rparr>"
  have h: "open_member ?s ''P'' ''b'' \<and> \<not> excluded (client_of ?s ''a'') ''b''
      \<and> excluded (client_of ?s ''a'') ''a''"
    by code_simp
  show ?thesis
    using h broadcast_delivers_once [of example_env two_tabs "''P''" ?m "client_of ?s ''a''" "''b''"]
      broadcast_delivers_once [of example_env two_tabs "''P''" ?m "client_of ?s ''a''" "''a''"]
    by simp
qed

section \<open>The telemetry notification\<close>

lemma filter_emit_sends [simp]: "filter is_emit (sends s pid U j ex k) = []"
  by (simp add: sends_def split: option.split)

lemma filter_emit_broadcast_effects:
  "filter is_emit (broadcast_effects s pid m ex)
     = (if projects s pid = None then [] else [IoEmit pid (mtype m)])"
  by (simp add: broadcast_effects_def filter_concat comp_def split: option.split)

text \<open>
  C7, as the code has it. A call of \<^verbatim>\<open>broadcast\<close> for a project that has a row pushes
  exactly one notification, with the project id and the envelope type, whoever
  receives the envelope (also nobody); a call for a project that has no row returns
  before \<^verbatim>\<open>io.emit\<close> and pushes none.
\<close>

theorem broadcast_notifies_when_row:
  "filter is_emit (added s (broadcast s S m ex))
     = (if projects s S = None then [] else [IoEmit S (mtype m)])"
  by (simp add: filter_emit_broadcast_effects)

theorem broadcast_notifies_when_row_witness:
  "projects (run example_env two_tabs) ''Q'' = None
   \<and> filter is_emit (added (run example_env two_tabs)
        (broadcast (run example_env two_tabs) ''Q'' \<lparr>mtype = ''cursor_moved'', payload = JNull\<rparr> None)) = []
   \<and> projects (run example_env two_tabs) ''P'' \<noteq> None
   \<and> filter is_emit (added (run example_env two_tabs)
        (broadcast (run example_env two_tabs) ''P'' \<lparr>mtype = ''cursor_moved'', payload = JNull\<rparr> None))
       = [IoEmit ''P'' ''cursor_moved'']"
proof -
  have h: "projects (run example_env two_tabs) ''Q'' = None
      \<and> projects (run example_env two_tabs) ''P'' \<noteq> None"
    by code_simp
  show ?thesis
    using h
      broadcast_notifies_when_row [of "run example_env two_tabs" "''Q''"
        "\<lparr>mtype = ''cursor_moved'', payload = JNull\<rparr>" None]
      broadcast_notifies_when_row [of "run example_env two_tabs" "''P''"
        "\<lparr>mtype = ''cursor_moved'', payload = JNull\<rparr>" None]
    by simp
qed

text \<open>
  After \<open>two_tabs\<close> and the close of connection \<open>b\<close>, connection \<open>a\<close> is still bound to
  \<open>P\<close>, which has no row: a call of \<^verbatim>\<open>broadcast\<close> for \<open>P\<close> (the one \<^verbatim>\<open>edit:send\<close> from \<open>a\<close>
  makes) pushes no notification.
\<close>

theorem broadcast_without_row_is_silent:
  "client_of (run example_env tabs_after_close) ''a''
     = Some \<lparr>clientId = ''a'', userId = ''u1'', userName = ''Ann'', isAuthenticated = True,
             projectId = Some ''P''\<rparr>
   \<and> filter is_emit
        (added (run example_env tabs_after_close)
           (broadcast (run example_env tabs_after_close) ''P''
              \<lparr>mtype = ''edit_applied'', payload = JNull\<rparr>
              (client_of (run example_env tabs_after_close) ''a''))) = []"
  by code_simp

section \<open>The reply to an edit\<close>

lemma added_sendResponse:
  "added s (sendResponse s' c p r) =
     added s s' @ (if ws_readyState s' (clientId c) = OPEN
                   then [WsSend (clientId c)
                           (mk_obj [(''type'', Some (JStr ''mcp_tool_response'')),
                                    (''payload'', Some p), (''requestId'', r)])]
                   else [])"
  if "length (effects s) \<le> length (effects s')"
  using that by (simp add: added_def sendResponse_def)

lemma added_sendError:
  "added s (sendError s' c err r) =
     added s s' @ (if ws_readyState s' (clientId c) = OPEN
                   then [WsSend (clientId c)
                           (mk_obj [(''type'', Some (JStr ''mcp_tool_response'')),
                                    (''payload'', Some (JObj [(''error'', JStr err)])),
                                    (''isError'', Some (JBool True)),
                                    (''requestId'', r)])]
                   else [])"
  if "length (effects s) \<le> length (effects s')"
  using that by (simp add: added_def sendError_def)

lemma added_self [simp]: "added s s = []"
  by (simp add: added_def)

lemma effects_broadcast_length [simp]:
  "length (effects s) \<le> length (effects (broadcast s pid m ex))"
  by (simp add: broadcast_eq)

lemma edit_send_valid:
  assumes "projectId c = Some P" "P \<noteq> []"
    "destructure ''args'' args ''fileId'' = Inr (Some (JStr f))" "f \<noteq> []"
    "opt_prop args ''changeData'' = Some (JArr cd)"
  shows "edit_send s c args r =
     sendResponse
       (broadcast s P
          \<lparr>mtype = ''edit_applied'',
           payload = JObj [(''fileId'', JStr f), (''changeData'', JArr cd),
                           (''sourceUserId'', JStr (userId c)),
                           (''sourceUserName'', JStr (userName c))]\<rparr>
          (Some c))
       c (JObj [(''success'', JBool True), (''message'', JStr ''Edit broadcasted'')]) r"
  using assms by (simp add: edit_send_def)

text \<open>
  C10. A well-formed \<^verbatim>\<open>edit:send\<close> from a client bound to project \<open>P\<close> adds the effects
  of the broadcast and then the success reply, which \<^verbatim>\<open>sendResponse\<close> writes to the
  sender's socket whenever that socket is open, whatever the registry holds. When \<open>P\<close> has
  no row the broadcast adds nothing (no recipient, no notification) and the reply is
  all there is. Such a state is reached: an open connection bound to a project that has
  no row.
\<close>

theorem edit_reply_unconditional:
  "(projectId c = Some P \<and> P \<noteq> []
     \<and> destructure ''payload'' pl ''toolName'' = Inr (Some (JStr ''edit:send''))
     \<and> destructure ''args'' (opt_prop pl ''arguments'') ''fileId'' = Inr (Some (JStr f))
     \<and> f \<noteq> []
     \<and> opt_prop (opt_prop pl ''arguments'') ''changeData'' = Some (JArr cd)
    \<longrightarrow>
      added s (handleMcpToolCall env s c pl r)
        = broadcast_effects s P
            \<lparr>mtype = ''edit_applied'',
             payload = JObj [(''fileId'', JStr f), (''changeData'', JArr cd),
                             (''sourceUserId'', JStr (userId c)),
                             (''sourceUserName'', JStr (userName c))]\<rparr>
            (Some c)
          @ (if ws_readyState s (clientId c) = OPEN
             then [WsSend (clientId c)
                     (mk_obj [(''type'', Some (JStr ''mcp_tool_response'')),
                              (''payload'', Some (JObj [(''success'', JBool True),
                                                        (''message'', JStr ''Edit broadcasted'')])),
                              (''requestId'', r)])]
             else [])
      \<and> (projects s P = None \<longrightarrow>
            broadcast_effects s P
              \<lparr>mtype = ''edit_applied'',
               payload = JObj [(''fileId'', JStr f), (''changeData'', JArr cd),
                               (''sourceUserId'', JStr (userId c)),
                               (''sourceUserName'', JStr (userName c))]\<rparr>
              (Some c) = []))
   \<and> (\<exists>evs k c' P'. client_of (run example_env evs) k = Some c' \<and> clientId c' = k
          \<and> projectId c' = Some P' \<and> ws_readyState (run example_env evs) k = OPEN
          \<and> projects (run example_env evs) P' = None)"
proof (intro conjI impI)
  assume h: "projectId c = Some P \<and> P \<noteq> []
     \<and> destructure ''payload'' pl ''toolName'' = Inr (Some (JStr ''edit:send''))
     \<and> destructure ''args'' (opt_prop pl ''arguments'') ''fileId'' = Inr (Some (JStr f))
     \<and> f \<noteq> []
     \<and> opt_prop (opt_prop pl ''arguments'') ''changeData'' = Some (JArr cd)"
  let ?m = "\<lparr>mtype = ''edit_applied'',
             payload = JObj [(''fileId'', JStr f), (''changeData'', JArr cd),
                             (''sourceUserId'', JStr (userId c)),
                             (''sourceUserName'', JStr (userName c))]\<rparr>"
  have "handleMcpToolCall env s c pl r = edit_send s c (opt_prop pl ''arguments'') r"
    using h by (simp add: handleMcpToolCall_def Let_def)
  also have "\<dots> = sendResponse (broadcast s P ?m (Some c)) c
       (JObj [(''success'', JBool True), (''message'', JStr ''Edit broadcasted'')]) r"
    using h by (intro edit_send_valid) simp_all
  finally show "added s (handleMcpToolCall env s c pl r)
        = broadcast_effects s P ?m (Some c)
          @ (if ws_readyState s (clientId c) = OPEN
             then [WsSend (clientId c)
                     (mk_obj [(''type'', Some (JStr ''mcp_tool_response'')),
                              (''payload'', Some (JObj [(''success'', JBool True),
                                                        (''message'', JStr ''Edit broadcasted'')])),
                              (''requestId'', r)])]
             else [])"
    by (simp add: added_sendResponse)
next
  assume "projects s P = None"
  then show "broadcast_effects s P
              \<lparr>mtype = ''edit_applied'',
               payload = JObj [(''fileId'', JStr f), (''changeData'', JArr cd),
                               (''sourceUserId'', JStr (userId c)),
                               (''sourceUserName'', JStr (userName c))]\<rparr>
              (Some c) = []"
    by (simp add: broadcast_effects_def)
next
  have "client_of (run example_env tabs_after_close) ''a''
          = Some \<lparr>clientId = ''a'', userId = ''u1'', userName = ''Ann'', isAuthenticated = True,
                  projectId = Some ''P''\<rparr>
      \<and> ws_readyState (run example_env tabs_after_close) ''a'' = OPEN
      \<and> projects (run example_env tabs_after_close) ''P'' = None"
    by code_simp
  then show "\<exists>evs k c' P'. client_of (run example_env evs) k = Some c' \<and> clientId c' = k
          \<and> projectId c' = Some P' \<and> ws_readyState (run example_env evs) k = OPEN
          \<and> projects (run example_env evs) P' = None"
    by (intro exI [of _ tabs_after_close] exI [of _ "''a''"] exI [of _ "''P''"]
        exI [of _ "\<lparr>clientId = ''a'', userId = ''u1'', userName = ''Ann'',
                     isAuthenticated = True, projectId = Some ''P''\<rparr>"]) simp
qed

theorem edit_reply_unconditional_witness:
  "(projectId \<lparr>clientId = ''a'', userId = ''u1'', userName = ''Ann'', isAuthenticated = True,
               projectId = Some ''P''\<rparr> = Some ''P''
    \<and> client_of (run example_env tabs_after_close) ''a''
        = Some \<lparr>clientId = ''a'', userId = ''u1'', userName = ''Ann'', isAuthenticated = True,
                projectId = Some ''P''\<rparr>
    \<and> ws_readyState (run example_env tabs_after_close) ''a'' = OPEN
    \<and> projects (run example_env tabs_after_close) ''P'' = None)
   \<and> added (run example_env tabs_after_close)
        (handleMcpToolCall example_env (run example_env tabs_after_close)
           \<lparr>clientId = ''a'', userId = ''u1'', userName = ''Ann'', isAuthenticated = True,
            projectId = Some ''P''\<rparr>
           (Some (tool_payload ''edit:send''
              (JObj [(''fileId'', JStr ''f.ts''), (''changeData'', JArr [])])))
           (Some (JStr ''r7'')))
       = [WsSend ''a''
            (JObj [(''type'', JStr ''mcp_tool_response''),
                   (''payload'', JObj [(''success'', JBool True),
                                       (''message'', JStr ''Edit broadcasted'')]),
                   (''requestId'', JStr ''r7'')])]"
proof -
  let ?s = "run example_env tabs_after_close"
  let ?c = "\<lparr>clientId = ''a'', userId = ''u1'', userName = ''Ann'', isAuthenticated = True,
            projectId = Some ''P''\<rparr>"
  let ?pl = "Some (tool_payload ''edit:send''
              (JObj [(''fileId'', JStr ''f.ts''), (''changeData'', JArr [])]))"
  have st: "client_of ?s ''a'' = Some ?c \<and> ws_readyState ?s ''a'' = OPEN
      \<and> projects ?s ''P'' = None"
    by code_simp
  have h: "projectId ?c = Some ''P'' \<and> ''P'' \<noteq> []
     \<and> destructure ''payload'' ?pl ''toolName'' = Inr (Some (JStr ''edit:send''))
     \<and> destructure ''args'' (opt_prop ?pl ''arguments'') ''fileId'' = Inr (Some (JStr ''f.ts''))
     \<and> ''f.ts'' \<noteq> []
     \<and> opt_prop (opt_prop ?pl ''arguments'') ''changeData'' = Some (JArr [])"
    by code_simp
  from edit_reply_unconditional [of ?c "''P''" ?pl "''f.ts''" "[]" ?s example_env "Some (JStr ''r7'')"]
  show ?thesis
    using h st by (simp add: mk_obj_def List.map_filter_simps)
qed

section \<open>The AI proxy's credential\<close>

lemma added_emit_self [simp]: "added s (emit s e) = [e]"
  by (simp add: added_def)

lemma added_suspend [simp]: "added s (suspend s' c t r) = added s s'"
  by (simp add: added_def suspend_def)

text \<open>
  What does hold: with neither key set, an \<^verbatim>\<open>ai:request_\<close> call from a client in a
  project is answered with the error alone, and nothing is posted.
\<close>

lemma ai_request_no_key:
  assumes "projectId c = Some P" "P \<noteq> []"
    "or_else (OPENAI_API_KEY env) (ANTHROPIC_API_KEY env) = None
       \<or> or_else (OPENAI_API_KEY env) (ANTHROPIC_API_KEY env) = Some []"
  shows "ai_request env s c tn args r =
           sendError s c (''AI request failed: '' @ ''API key for '' @ tn
             @ '' is not configured in environment variables.'') r"
  using assms by (auto simp: ai_request_def)

text \<open>
  C3 at the failing input. Only the Anthropic key is configured (\<open>example_env\<close>);
  connection \<open>a\<close>, authenticated and in project \<open>P\<close>, sends \<^verbatim>\<open>ai:request_openai\<close>. The
  handler takes \<^verbatim>\<open>OPENAI_API_KEY || ANTHROPIC_API_KEY\<close>, finds a key, and posts to the
  OpenAI endpoint with the Anthropic key as bearer; no error reply is sent.
\<close>

theorem openai_request_uses_other_key:
  "OPENAI_API_KEY example_env = None
   \<and> added (run example_env two_tabs)
        (step example_env (run example_env two_tabs)
           (Message ''a'' (Some (tool_call ''ai:request_openai''
              (JObj [(''prompt'', JStr ''hi'')]) ''r3''))))
       = [AxiosPost ''https://api.openai.com/v1/chat/completions''
            (JObj [(''model'', JStr ''gpt-4o''),
                   (''messages'', JArr
                      [JObj [(''role'', JStr ''system''),
                             (''content'', JStr ''You are a helpful assistant.'')],
                       JObj [(''role'', JStr ''user''), (''content'', JStr ''hi'')]])])
            [(''Authorization'', ''Bearer sk-ant''),
             (''Content-Type'', ''application/json'')]]"
  by code_simp

section \<open>Chat\<close>

lemma sends_excluded: "WsSend (clientId c) j \<notin> set (sends s pid U j' (Some c) k)"
  by (auto simp: sends_def split: option.splits)

lemma broadcast_effects_excluded:
  "WsSend (clientId c) j \<notin> set (broadcast_effects s pid m (Some c))"
  by (auto simp: broadcast_effects_def sends_excluded split: option.splits)

lemma added_reject [simp]: "added s (reject s c e) = [UnhandledRejection (clientId c) e]"
  by (simp add: reject_def added_def)

lemmas handler_splits_asm =
  option.splits sum.splits json.splits list.splits prod.splits if_splits

lemma edit_send_to_sender:
  "WsSend (clientId c) j \<in> set (added s (edit_send s c args r)) \<Longrightarrow>
     field j ''type'' = Some (JStr ''mcp_tool_response'')"
  by (auto simp: edit_send_def added_sendError added_sendResponse mk_obj_def
      List.map_filter_simps broadcast_effects_excluded split: handler_splits_asm)

lemma cursor_update_to_sender:
  "WsSend (clientId c) j \<in> set (added s (cursor_update s c args r)) \<Longrightarrow>
     field j ''type'' = Some (JStr ''mcp_tool_response'')"
  by (auto simp: cursor_update_def added_sendError mk_obj_def
      List.map_filter_simps broadcast_effects_excluded split: handler_splits_asm)

text \<open>
  C5, as the code has it. A client bound to project \<open>P\<close> sends a chat message that is a
  string. When the string is not empty after trimming, the handler broadcasts one
  \<^verbatim>\<open>new_chat_message\<close> envelope carrying the user id, the user name and the trimmed
  message, with no connection excluded: a connection gets it, exactly once, if and only
  if it is an open member connection of \<open>P\<close>, and so does the sender's connection \<open>k\<close>
  (the statement holds for every \<open>k'\<close>, \<open>k\<close> among them): it gets the envelope when the
  sender's user id is still in the member set of \<open>P\<close>, and not otherwise. When the string
  is empty after trimming, the handler only answers the sender with the error, and
  broadcasts nothing. What \<^verbatim>\<open>edit:send\<close> and \<^verbatim>\<open>cursor:update\<close> write to the sender's own
  socket is never the broadcast envelope, only a tool response.
\<close>

theorem chat_reaches_sender:
  "client_of (run env evs) k = Some c \<and> projectId c = Some P
     \<and> destructure ''payload'' pl ''message'' = Inr (Some (JStr msg))
   \<longrightarrow>
     (trim msg \<noteq> [] \<longrightarrow>
        handleChatMessage (run env evs) c pl
          = Inr (broadcast (run env evs) P
                   \<lparr>mtype = ''new_chat_message'',
                    payload = JObj [(''userId'', JStr (userId c)),
                                    (''userName'', JStr (userName c)),
                                    (''message'', JStr (trim msg))]\<rparr> None)
        \<and> count_list
             (added (run env evs)
                (broadcast (run env evs) P
                   \<lparr>mtype = ''new_chat_message'',
                    payload = JObj [(''userId'', JStr (userId c)),
                                    (''userName'', JStr (userName c)),
                                    (''message'', JStr (trim msg))]\<rparr> None))
             (WsSend k'
                (stringify \<lparr>mtype = ''new_chat_message'',
                    payload = JObj [(''userId'', JStr (userId c)),
                                    (''userName'', JStr (userName c)),
                                    (''message'', JStr (trim msg))]\<rparr>))
           = (if open_member (run env evs) P k' then 1 else 0))
     \<and> (trim msg = [] \<longrightarrow>
          handleChatMessage (run env evs) c pl
            = Inr (sendError (run env evs) c ''Invalid chat message'' None)
          \<and> added (run env evs) (sendError (run env evs) c ''Invalid chat message'' None)
            = (if ws_readyState (run env evs) k = OPEN
               then [WsSend k
                       (JObj [(''type'', JStr ''mcp_tool_response''),
                              (''payload'', JObj [(''error'', JStr ''Invalid chat message'')]),
                              (''isError'', JBool True)])]
               else []))
     \<and> (\<forall>j. WsSend k j \<in> set (added (run env evs) (edit_send (run env evs) c args r))
              \<or> WsSend k j \<in> set (added (run env evs) (cursor_update (run env evs) c args r))
            \<longrightarrow> field j ''type'' = Some (JStr ''mcp_tool_response''))"
proof (intro impI)
  let ?s = "run env evs"
  assume h: "client_of ?s k = Some c \<and> projectId c = Some P
     \<and> destructure ''payload'' pl ''message'' = Inr (Some (JStr msg))"
  have inv: "server_inv ?s" by (rule server_inv_run)
  have ck: "clientId c = k" and P: "P \<noteq> []"
    using inv h by (auto simp: server_inv_def)
  have trim_Nil: "trim [] = []" by (simp add: trim_def)
  have a: "trim msg \<noteq> [] \<Longrightarrow> handleChatMessage ?s c pl
          = Inr (broadcast ?s P
                   \<lparr>mtype = ''new_chat_message'',
                    payload = JObj [(''userId'', JStr (userId c)),
                                    (''userName'', JStr (userName c)),
                                    (''message'', JStr (trim msg))]\<rparr> None)"
    using h P trim_Nil by (auto simp: handleChatMessage_def)
  have b: "trim msg = [] \<Longrightarrow> handleChatMessage ?s c pl
            = Inr (sendError ?s c ''Invalid chat message'' None)"
    using h P by (auto simp: handleChatMessage_def)
  have c: "added ?s (sendError ?s c ''Invalid chat message'' None)
            = (if ws_readyState ?s k = OPEN
               then [WsSend k
                       (JObj [(''type'', JStr ''mcp_tool_response''),
                              (''payload'', JObj [(''error'', JStr ''Invalid chat message'')]),
                              (''isError'', JBool True)])]
               else [])"
    by (simp add: added_sendError ck mk_obj_def List.map_filter_simps)
  have d: "count_list (added ?s (broadcast ?s P m None)) (WsSend k' (stringify m))
           = (if open_member ?s P k' then 1 else 0)" for m
    using count_broadcast_effects [OF inv, of P m None k'] by (simp add: excluded_def)
  have e: "field j ''type'' = Some (JStr ''mcp_tool_response'')"
    if "WsSend k j \<in> set (added ?s (edit_send ?s c args r))
              \<or> WsSend k j \<in> set (added ?s (cursor_update ?s c args r))" for j
    using that ck edit_send_to_sender [of c j ?s args r]
      cursor_update_to_sender [of c j ?s args r] by auto
  show "(trim msg \<noteq> [] \<longrightarrow>
        handleChatMessage (run env evs) c pl
          = Inr (broadcast (run env evs) P
                   \<lparr>mtype = ''new_chat_message'',
                    payload = JObj [(''userId'', JStr (userId c)),
                                    (''userName'', JStr (userName c)),
                                    (''message'', JStr (trim msg))]\<rparr> None)
        \<and> count_list
             (added (run env evs)
                (broadcast (run env evs) P
                   \<lparr>mtype = ''new_chat_message'',
                    payload = JObj [(''userId'', JStr (userId c)),
                                    (''userName'', JStr (userName c)),
                                    (''message'', JStr (trim msg))]\<rparr> None))
             (WsSend k'
                (stringify \<lparr>mtype = ''new_chat_message'',
                    payload = JObj [(''userId'', JStr (userId c)),
                                    (''userName'', JStr (userName c)),
                                    (''message'', JStr (trim msg))]\<rparr>))
           = (if open_member (run env evs) P k' then 1 else 0))
     \<and> (trim msg = [] \<longrightarrow>
          handleChatMessage (run env evs) c pl
            = Inr (sendError (run env evs) c ''Invalid chat message'' None)
          \<and> added (run env evs) (sendError (run env evs) c ''Invalid chat message'' None)
            = (if ws_readyState (run env evs) k = OPEN
               then [WsSend k
                       (JObj [(''type'', JStr ''mcp_tool_response''),
                              (''payload'', JObj [(''error'', JStr ''Invalid chat message'')]),
                              (''isError'', JBool True)])]
               else []))
     \<and> (\<forall>j. WsSend k j \<in> set (added (run env evs) (edit_send (run env evs) c args r))
              \<or> WsSend k j \<in> set (added (run env evs) (cursor_update (run env evs) c args r))
            \<longrightarrow> field j ''type'' = Some (JStr ''mcp_tool_response''))"
    using a b c d e by blast
qed

theorem chat_reaches_sender_witness:
  "(client_of (run example_env two_tabs) ''a''
      = Some \<lparr>clientId = ''a'', userId = ''u1'', userName = ''Ann'', isAuthenticated = True,
              projectId = Some ''P''\<rparr>
    \<and> trim '' hi  '' = ''hi'' \<and> trim ''   '' = []
    \<and> open_member (run example_env two_tabs) ''P'' ''a'')
   \<and> handleChatMessage (run example_env two_tabs)
        \<lparr>clientId = ''a'', userId = ''u1'', userName = ''Ann'', isAuthenticated = True,
         projectId = Some ''P''\<rparr>
        (Some (JObj [(''message'', JStr '' hi  '')]))
       = Inr (broadcast (run example_env two_tabs) ''P''
                \<lparr>mtype = ''new_chat_message'',
                 payload = JObj [(''userId'', JStr ''u1''), (''userName'', JStr ''Ann''),
                                 (''message'', JStr ''hi'')]\<rparr> None)
   \<and> count_list
        (added (run example_env two_tabs)
           (broadcast (run example_env two_tabs) ''P''
              \<lparr>mtype = ''new_chat_message'',
               payload = JObj [(''userId'', JStr ''u1''), (''userName'', JStr ''Ann''),
                               (''message'', JStr ''hi'')]\<rparr> None))
        (WsSend ''a''
           (stringify \<lparr>mtype = ''new_chat_message'',
               payload = JObj [(''userId'', JStr ''u1''), (''userName'', JStr ''Ann''),
                               (''message'', JStr ''hi'')]\<rparr>)) = 1
   \<and> handleChatMessage (run example_env two_tabs)
        \<lparr>clientId = ''a'', userId = ''u1'', userName = ''Ann'', isAuthenticated = True,
         projectId = Some ''P''\<rparr>
        (Some (JObj [(''message'', JStr ''   '')]))
       = Inr (sendError (run example_env two_tabs)
                \<lparr>clientId = ''a'', userId = ''u1'', userName = ''Ann'', isAuthenticated = True,
                 projectId = Some ''P''\<rparr> ''Invalid chat message'' None)"
proof -
  let ?s = "run example_env two_tabs"
  let ?c = "\<lparr>clientId = ''a'', userId = ''u1'', userName = ''Ann'', isAuthenticated = True,
         projectId = Some ''P''\<rparr>"
  have st: "client_of ?s ''a'' = Some ?c \<and> trim '' hi  '' = ''hi'' \<and> trim ''   '' = []
      \<and> open_member ?s ''P'' ''a''"
    by code_simp
  have h1: "destructure ''payload'' (Some (JObj [(''message'', JStr '' hi  '')])) ''message''
      = Inr (Some (JStr '' hi  ''))"
    by simp
  have h2: "destructure ''payload'' (Some (JObj [(''message'', JStr ''   '')])) ''message''
      = Inr (Some (JStr ''   ''))"
    by simp
  show ?thesis
    using st h1 h2
      chat_reaches_sender [of example_env two_tabs "''a''" ?c "''P''"
        "Some (JObj [(''message'', JStr '' hi  '')])" "'' hi  ''" "''a''"]
      chat_reaches_sender [of example_env two_tabs "''a''" ?c "''P''"
        "Some (JObj [(''message'', JStr ''   '')])" "''   ''" "''a''"]
    by simp
qed

text \<open>
  After \<open>two_tabs\<close> and the close of connection \<open>b\<close>, connection \<open>a\<close> is open and bound to
  \<open>P\<close>, but its user has left the member set. Its chat message \<open>hello\<close> reaches nobody,
  the sender included; and once user \<open>u2\<close> has joined \<open>P\<close> on connection \<open>c\<close>, the same
  message reaches \<open>c\<close> alone.
\<close>

theorem chat_misses_evicted_sender:
  "client_of (run example_env tabs_after_close) ''a''
     = Some \<lparr>clientId = ''a'', userId = ''u1'', userName = ''Ann'', isAuthenticated = True,
             projectId = Some ''P''\<rparr>
   \<and> ws_readyState (run example_env tabs_after_close) ''a'' = OPEN
   \<and> trim ''hello'' = ''hello''
   \<and> added (run example_env tabs_after_close)
        (step example_env (run example_env tabs_after_close)
           (Message ''a'' (Some (JObj [(''type'', JStr ''chat_message''),
                                       (''payload'', JObj [(''message'', JStr ''hello'')])]))))
       = []
   \<and> added
        (run example_env
           (tabs_after_close
              @ [Connection ''c'', Message ''c'' (Some (authenticate_msg ''t2'')),
                 Message ''c'' (Some (join_call ''P'' ''r3''))]))
        (step example_env
           (run example_env
              (tabs_after_close
                 @ [Connection ''c'', Message ''c'' (Some (authenticate_msg ''t2'')),
                    Message ''c'' (Some (join_call ''P'' ''r3''))]))
           (Message ''a'' (Some (JObj [(''type'', JStr ''chat_message''),
                                       (''payload'', JObj [(''message'', JStr ''hello'')])]))))
       = [IoEmit ''P'' ''new_chat_message'',
          WsSend ''c''
            (JObj [(''type'', JStr ''new_chat_message''),
                   (''payload'', JObj [(''userId'', JStr ''u1''), (''userName'', JStr ''Ann''),
                                       (''message'', JStr ''hello'')])])]"
  by code_simp

section \<open>Closing one of a user's connections\<close>

lemma on_close_accessors:
  assumes "conns s k = Some cn"
  shows "client_of (on_close s k) = client_of s"
    and "ws_readyState (on_close s k) = (ws_readyState s)(k := CLOSED)"
proof -
  let ?s0 = "s\<lparr>conns := (conns s)(k \<mapsto> cn\<lparr>ws := CLOSED, authTimeout := False\<rparr>)\<rparr>"
  have co: "client_of ?s0 = client_of s"
    using assms by (auto simp: client_of_def)
  have ws: "ws_readyState ?s0 = (ws_readyState s)(k := CLOSED)"
    by (auto simp: ws_readyState_def)
  show "client_of (on_close s k) = client_of s"
    using assms co by (simp add: on_close_def Let_def split: option.split)
  show "ws_readyState (on_close s k) = (ws_readyState s)(k := CLOSED)"
    using assms ws by (simp add: on_close_def Let_def split: option.split)
qed

lemma on_close_projects:
  assumes "conns s k = Some cn" "authenticated cn = Some c" "projectId c = Some P" "P \<noteq> []"
  shows "projects (on_close s k) =
     (case projects s P of
        None \<Rightarrow> projects s
      | Some U \<Rightarrow> if U - {userId c} = {} then (projects s)(P := None)
                  else (projects s)(P \<mapsto> U - {userId c}))"
  using assms by (simp add: on_close_def Let_def leaveProject_projects split: option.split)

text \<open>
  C8. Connections \<open>a\<close> and \<open>b\<close> belong to the same user and are bound to the same project
  \<open>P\<close>. When \<open>b\<close> closes, the user id leaves the member set of \<open>P\<close> altogether; connection
  \<open>a\<close> keeps its binding and its socket state, yet it is no longer an open member
  connection of \<open>P\<close>, and a broadcast for \<open>P\<close> in that state does not send to it.
\<close>

theorem close_evicts_user:
  "a \<noteq> b \<and> client_of (run env evs) a = Some ca \<and> client_of (run env evs) b = Some cb
     \<and> userId ca = userId cb \<and> projectId ca = Some P \<and> projectId cb = Some P
     \<and> ws_readyState (run env evs) b \<noteq> CLOSED
   \<longrightarrow>
     userId ca \<notin> members (run env (evs @ [Close b])) P
     \<and> client_of (run env (evs @ [Close b])) a = Some ca
     \<and> ws_readyState (run env (evs @ [Close b])) a = ws_readyState (run env evs) a
     \<and> \<not> open_member (run env (evs @ [Close b])) P a
     \<and> count_list
          (added (run env (evs @ [Close b])) (broadcast (run env (evs @ [Close b])) P m ex))
          (WsSend a (stringify m)) = 0"
proof (intro impI)
  let ?s = "run env evs" and ?s' = "run env (evs @ [Close b])"
  assume h: "a \<noteq> b \<and> client_of ?s a = Some ca \<and> client_of ?s b = Some cb
     \<and> userId ca = userId cb \<and> projectId ca = Some P \<and> projectId cb = Some P
     \<and> ws_readyState ?s b \<noteq> CLOSED"
  have inv: "server_inv ?s" and inv': "server_inv ?s'"
    by (rule server_inv_run)+
  obtain cn where cn: "conns ?s b = Some cn" "client cn = Some cb"
    using h by (auto simp: client_of_def split: option.splits)
  have auth: "authenticated cn = Some cb" and P: "P \<noteq> []"
    using inv h cn by (auto simp: server_inv_def authenticated_def)
  have alive: "\<not> exited ?s"
    using inv h by (auto simp: server_inv_def)
  have s': "?s' = on_close ?s b"
    using h alive by (simp add: run_snoc step_def dispatch_def)
  have mem: "userId ca \<notin> members ?s' P"
    using h by (simp add: s' members_def on_close_projects [OF cn(1) auth _ P]
        split: option.split)
  have co: "client_of ?s' a = Some ca"
    using h by (simp add: s' on_close_accessors [OF cn(1)])
  have ws: "ws_readyState ?s' a = ws_readyState ?s a"
    using h by (simp add: s' on_close_accessors [OF cn(1)])
  have om: "\<not> open_member ?s' P a"
    using mem co by (simp add: open_member_def)
  have "count_list (added ?s' (broadcast ?s' P m ex)) (WsSend a (stringify m)) = 0"
    using count_broadcast_effects [OF inv', of P m ex a] om by simp
  with mem co ws om
  show "userId ca \<notin> members ?s' P \<and> client_of ?s' a = Some ca
     \<and> ws_readyState ?s' a = ws_readyState ?s a \<and> \<not> open_member ?s' P a
     \<and> count_list (added ?s' (broadcast ?s' P m ex)) (WsSend a (stringify m)) = 0"
    by simp
qed

theorem close_evicts_user_witness:
  "(''a'' \<noteq> ''b''
    \<and> client_of (run example_env two_tabs) ''a''
        = Some \<lparr>clientId = ''a'', userId = ''u1'', userName = ''Ann'', isAuthenticated = True,
                projectId = Some ''P''\<rparr>
    \<and> client_of (run example_env two_tabs) ''b''
        = Some \<lparr>clientId = ''b'', userId = ''u1'', userName = ''Ann'', isAuthenticated = True,
                projectId = Some ''P''\<rparr>
    \<and> ws_readyState (run example_env two_tabs) ''b'' \<noteq> CLOSED
    \<and> open_member (run example_env two_tabs) ''P'' ''a'')
   \<and> ws_readyState (run example_env (two_tabs @ [Close ''b''])) ''a'' = OPEN
   \<and> \<not> open_member (run example_env (two_tabs @ [Close ''b''])) ''P'' ''a''
   \<and> count_list
        (added (run example_env (two_tabs @ [Close ''b'']))
           (broadcast (run example_env (two_tabs @ [Close ''b''])) ''P''
              \<lparr>mtype = ''new_chat_message'', payload = JNull\<rparr> None))
        (WsSend ''a'' (stringify \<lparr>mtype = ''new_chat_message'', payload = JNull\<rparr>)) = 0"
proof -
  let ?s = "run example_env two_tabs"
  let ?ca = "\<lparr>clientId = ''a'', userId = ''u1'', userName = ''Ann'', isAuthenticated = True,
                projectId = Some ''P''\<rparr>"
  let ?cb = "\<lparr>clientId = ''b'', userId = ''u1'', userName = ''Ann'', isAuthenticated = True,
                projectId = Some ''P''\<rparr>"
  have st: "''a'' \<noteq> ''b'' \<and> client_of ?s ''a'' = Some ?ca \<and> client_of ?s ''b'' = Some ?cb
      \<and> ws_readyState ?s ''b'' \<noteq> CLOSED \<and> ws_readyState ?s ''a'' = OPEN
      \<and> open_member ?s ''P'' ''a''"
    by code_simp
  show ?thesis
    using st
      close_evicts_user [of "''a''" "''b''" example_env two_tabs ?ca ?cb "''P''"
        "\<lparr>mtype = ''new_chat_message'', payload = JNull\<rparr>" None]
    by simp
qed

section \<open>Closing connections\<close>

lemma register_client_fields [simp]:
  "projects (register_client s k c) = projects s"
  "awaiting (register_client s k c) = awaiting s"
  "effects (register_client s k c) = effects s"
  "closes (register_client s k c) = closes s"
  "exited (register_client s k c) = exited s"
  by (simp_all add: register_client_def closes_def split: option.split)

lemma register_client_ws [simp]: "ws_readyState (register_client s k c) = ws_readyState s"
  by (rule ext) (simp add: register_client_def ws_readyState_def split: option.split)


















section \<open>Request ids\<close>

lemma effects_sendResponse:
  "effects (sendResponse s c p r) =
     effects s @ (if ws_readyState s (clientId c) = OPEN
                  then [WsSend (clientId c)
                          (mk_obj [(''type'', Some (JStr ''mcp_tool_response'')),
                                   (''payload'', Some p), (''requestId'', r)])]
                  else [])"
  by (simp add: sendResponse_def)

lemma effects_sendError:
  "effects (sendError s c err r) =
     effects s @ (if ws_readyState s (clientId c) = OPEN
                  then [WsSend (clientId c)
                          (mk_obj [(''type'', Some (JStr ''mcp_tool_response'')),
                                   (''payload'', Some (JObj [(''error'', JStr err)])),
                                   (''isError'', Some (JBool True)),
                                   (''requestId'', r)])]
                  else [])"
  by (simp add: sendError_def)

lemma effects_broadcast:
  "effects (broadcast s pid m ex) = effects s @ broadcast_effects s pid m ex"
  by (simp add: broadcast_eq)

lemma effects_leaveProject:
  "effects (leaveProject s c pid) = effects s @ leave_effects s c pid"
  by (simp add: leaveProject_def leave_effects_def effects_broadcast split: option.split)

lemma effects_reject: "effects (reject s c e) = effects s @ [UnhandledRejection (clientId c) e]"
  by (simp add: reject_def)

lemma effects_suspend [simp]: "effects (suspend s c t r) = effects s"
  by (simp add: suspend_def)

lemmas effects_simps =
  effects_sendResponse effects_sendError effects_broadcast effects_leaveProject effects_reject

lemma added_append [simp]: "added s (s'\<lparr>effects := effects s @ es\<rparr>) = es"
  by (simp add: added_def)

lemma added_effects_eq: "effects s' = effects s @ es \<Longrightarrow> added s s' = es"
  by (simp add: added_def)

lemma echoes_simps [simp]:
  "echoes c r [] = True"
  "echoes c r (xs @ ys) = (echoes c r xs \<and> echoes c r ys)"
  "echoes c r (WsSend k j # xs) = ((k \<noteq> clientId c \<or> field j ''requestId'' = r) \<and> echoes c r xs)"
  "echoes c r (UnhandledRejection k e # xs) = echoes c r xs"
  "echoes c r (AxiosPost u b h # xs) = echoes c r xs"
  "echoes c r (IoEmit p t # xs) = echoes c r xs"
  by (simp_all add: echoes_def)

lemma echoes_iff:
  "echoes c r es = (\<forall>j. WsSend (clientId c) j \<in> set es \<longrightarrow> field j ''requestId'' = r)"
  by (auto simp: echoes_def list_all_iff split: effect.splits)

lemma echoes_broadcast_effects [simp]: "echoes c r (broadcast_effects s pid m (Some c))"
  by (simp add: echoes_iff broadcast_effects_excluded)

lemma echoes_leave_effects [simp]: "echoes c r (leave_effects s c pid)"
  by (simp add: leave_effects_def split: option.split)

lemma field_response [simp]:
  "field (mk_obj [(''type'', Some t), (''payload'', Some p), (''requestId'', r)]) ''requestId'' = r"
  "field (mk_obj [(''type'', Some t), (''payload'', Some p), (''isError'', Some b),
                  (''requestId'', r)]) ''requestId'' = r"
  by (cases r; simp add: mk_obj_def List.map_filter_simps)+

lemma echoes_project_join:
  "echoes c r (drop (length (effects s)) (effects (project_join s c args r)))"
  by (simp add: project_join_def Let_def effects_simps split: handler_splits)

lemma echoes_edit_send:
  "echoes c r (drop (length (effects s)) (effects (edit_send s c args r)))"
  by (simp add: edit_send_def effects_simps split: handler_splits)

lemma echoes_cursor_update:
  "echoes c r (drop (length (effects s)) (effects (cursor_update s c args r)))"
  by (simp add: cursor_update_def effects_simps split: handler_splits)

lemma echoes_ai_request:
  "echoes c r (drop (length (effects s)) (effects (ai_request env s c tn args r)))"
  by (simp add: ai_request_def effects_simps split: handler_splits)

lemma echoes_handleMcpToolCall:
  "echoes c r (added s (handleMcpToolCall env s c pl r))"
  by (simp add: added_def handleMcpToolCall_def Let_def effects_simps echoes_project_join
      echoes_edit_send echoes_cursor_update echoes_ai_request split: handler_splits)

lemma awaiting_ai_request:
  "su \<in> set (drop (length (awaiting s)) (awaiting (ai_request env s c tn args r)))
     \<Longrightarrow> s_client su = c \<and> s_requestId su = r"
  by (auto simp: ai_request_def suspend_def split: handler_splits_asm)

lemma awaiting_handleMcpToolCall:
  "su \<in> set (drop (length (awaiting s)) (awaiting (handleMcpToolCall env s c pl r)))
     \<Longrightarrow> s_client su = c \<and> s_requestId su = r"
  by (auto simp: handleMcpToolCall_def Let_def dest: awaiting_ai_request
      split: handler_splits_asm)

lemma echoes_ai_resume:
  "echoes (s_client su) (s_requestId su) (added s (ai_resume s su x))"
  by (simp add: added_def ai_resume_def effects_simps split: sum.split axios_error.split)

text \<open>
  What does hold. On an authenticated connection, every envelope the message handler
  writes to the sender's socket in answer to a message that is not of the chat type
  carries the request id of that message (tool-call success replies, tool-call
  validation errors, the not-implemented reply, the unknown-type error); a tool call
  suspended at the AI provider keeps the request id, and the reply sent when it resumes
  carries it.
\<close>

theorem tool_replies_echo_request_id:
  "(conns (run env evs) k = Some cn \<and> authenticated cn = Some c
      \<and> get_prop (Some m) ''type'' \<noteq> Inr (Some (JStr ''chat_message''))
    \<longrightarrow>
      (\<forall>j. WsSend k j \<in> set (added (run env evs) (on_message env (run env evs) k (Some m)))
           \<longrightarrow> field j ''requestId'' = field m ''requestId'')
      \<and> (\<forall>su \<in> set (drop (length (awaiting (run env evs)))
                        (awaiting (on_message env (run env evs) k (Some m)))).
            s_client su = c \<and> s_requestId su = field m ''requestId''))
   \<and> (\<forall>j. WsSend (clientId (s_client su')) j \<in> set (added s (ai_resume s su' x))
         \<longrightarrow> field j ''requestId'' = s_requestId su')"
proof (intro conjI impI ballI allI)
  let ?s = "run env evs"
  assume h: "conns ?s k = Some cn \<and> authenticated cn = Some c
      \<and> get_prop (Some m) ''type'' \<noteq> Inr (Some (JStr ''chat_message''))"
  have ck: "clientId c = k"
    using server_inv_run [of env evs] authenticated_Some [of ?s k cn c] h
    by (simp add: server_inv_def)
  have tool: "WsSend k j \<in> set (added ?s (handleMcpToolCall env ?s c pl r))
      \<Longrightarrow> field j ''requestId'' = r" for j pl r
    using echoes_handleMcpToolCall [of c r ?s env pl] ck by (simp add: echoes_iff)
  {
    fix j
    assume "WsSend k j \<in> set (added ?s (on_message env ?s k (Some m)))"
    then show "field j ''requestId'' = field m ''requestId''"
      using h tool
      by (cases m)
        (auto simp: on_message_def invalid_format_def added_def mk_obj_def
          List.map_filter_simps split: if_splits option.splits)
  next
    fix su
    assume "su \<in> set (drop (length (awaiting ?s)) (awaiting (on_message env ?s k (Some m))))"
    then show "s_client su = c" and "s_requestId su = field m ''requestId''"
      using h
      by (cases m;
          auto simp: on_message_def invalid_format_def
            dest: awaiting_handleMcpToolCall split: if_splits)+
  }
next
  fix j
  assume "WsSend (clientId (s_client su')) j \<in> set (added s (ai_resume s su' x))"
  then show "field j ''requestId'' = s_requestId su'"
    using echoes_ai_resume [of su' s x] by (simp add: echoes_iff)
qed

theorem tool_replies_echo_request_id_witness:
  "(conns (run example_env two_tabs) ''a''
      = Some \<lparr>ws = OPEN,
              client = Some \<lparr>clientId = ''a'', userId = ''u1'', userName = ''Ann'',
                              isAuthenticated = True, projectId = Some ''P''\<rparr>,
              authTimeout = False\<rparr>
    \<and> get_prop (Some (tool_call ''edit:send'' (JObj []) ''r5'')) ''type''
        \<noteq> Inr (Some (JStr ''chat_message''))
    \<and> WsSend ''a''
         (JObj [(''type'', JStr ''mcp_tool_response''),
                (''payload'', JObj [(''error'',
                   JStr ''Missing, invalid, or incorrectly formatted fileId or changeData for edit:send'')]),
                (''isError'', JBool True),
                (''requestId'', JStr ''r5'')])
        \<in> set (added (run example_env two_tabs)
                 (on_message example_env (run example_env two_tabs) ''a''
                    (Some (tool_call ''edit:send'' (JObj []) ''r5'')))))
   \<and> field
        (JObj [(''type'', JStr ''mcp_tool_response''),
               (''payload'', JObj [(''error'',
                  JStr ''Missing, invalid, or incorrectly formatted fileId or changeData for edit:send'')]),
               (''isError'', JBool True),
               (''requestId'', JStr ''r5'')]) ''requestId''
       = field (tool_call ''edit:send'' (JObj []) ''r5'') ''requestId''"
proof -
  let ?s = "run example_env two_tabs"
  let ?c = "\<lparr>clientId = ''a'', userId = ''u1'', userName = ''Ann'',
                              isAuthenticated = True, projectId = Some ''P''\<rparr>"
  let ?cn = "\<lparr>ws = OPEN, client = Some ?c, authTimeout = False\<rparr>"
  let ?m = "tool_call ''edit:send'' (JObj []) ''r5''"
  let ?j = "JObj [(''type'', JStr ''mcp_tool_response''),
                (''payload'', JObj [(''error'',
                   JStr ''Missing, invalid, or incorrectly formatted fileId or changeData for edit:send'')]),
                (''isError'', JBool True),
                (''requestId'', JStr ''r5'')]"
  have st: "conns ?s ''a'' = Some ?cn \<and> authenticated ?cn = Some ?c
      \<and> get_prop (Some ?m) ''type'' \<noteq> Inr (Some (JStr ''chat_message''))
      \<and> WsSend ''a'' ?j \<in> set (added ?s (on_message example_env ?s ''a'' (Some ?m)))"
    by code_simp
  from tool_replies_echo_request_id [of example_env two_tabs "''a''" ?cn ?c ?m]
  have "\<forall>j. WsSend ''a'' j \<in> set (added ?s (on_message example_env ?s ''a'' (Some ?m)))
           \<longrightarrow> field j ''requestId'' = field ?m ''requestId''"
    using st by blast
  then have "field ?j ''requestId'' = field ?m ''requestId''"
    using st by blast
  then show ?thesis using st by blast
qed

text \<open>
  The chat branch of the same \<^verbatim>\<open>switch\<close> does not hand \<^verbatim>\<open>message.requestId\<close> on: nothing
  the chat handler writes to a socket, its error replies among it, has a request id.
\<close>

lemma chat_sends_no_request_id:
  assumes "handleChatMessage s c pl = Inr s'" "WsSend k j \<in> set (added s s')"
  shows "field j ''requestId'' = None"
proof -
  have "field (stringify m) ''requestId'' = None" for m
    by (simp add: stringify_def)
  then have "field j ''requestId'' = None"
    if "WsSend k j \<in> set (broadcast_effects s P m None)" for P m
    using broadcast_effects_only [OF that] by auto
  then show ?thesis
    using assms
    by (auto simp: handleChatMessage_def added_sendError mk_obj_def List.map_filter_simps
        split: handler_splits_asm)
qed

text \<open>
  C9 at the failing input. Connection \<open>a\<close>, authenticated and in project \<open>P\<close>, sends a chat
  message that is blank, with request id \<open>r9\<close>: the one reply is the chat error, and it
  has no request id.
\<close>

theorem chat_error_drops_request_id:
  "field (JObj [(''type'', JStr ''chat_message''),
                (''payload'', JObj [(''message'', JStr ''   '')]),
                (''requestId'', JStr ''r9'')]) ''requestId'' = Some (JStr ''r9'')
   \<and> added (run example_env two_tabs)
        (step example_env (run example_env two_tabs)
           (Message ''a''
              (Some (JObj [(''type'', JStr ''chat_message''),
                           (''payload'', JObj [(''message'', JStr ''   '')]),
                           (''requestId'', JStr ''r9'')]))))
       = [WsSend ''a''
            (JObj [(''type'', JStr ''mcp_tool_response''),
                   (''payload'', JObj [(''error'', JStr ''Invalid chat message'')]),
                   (''isError'', JBool True)])]
   \<and> field (JObj [(''type'', JStr ''mcp_tool_response''),
                   (''payload'', JObj [(''error'', JStr ''Invalid chat message'')]),
                   (''isError'', JBool True)]) ''requestId'' = None"
  by code_simp

section \<open>Switching projects\<close>

lemma sends_cong:
  "client_of s' = client_of s \<Longrightarrow> ws_readyState s' = ws_readyState s
     \<Longrightarrow> sends s' = sends s"
  by (intro ext) (simp add: sends_def split: option.split)

lemma broadcast_effects_cong:
  assumes "client_of s' = client_of s" "ws_readyState s' = ws_readyState s"
    "clients s' = clients s" "projects s' = projects s"
  shows "broadcast_effects s' pid m ex = broadcast_effects s pid m ex"
  using assms sends_cong [OF assms(1,2)]
  by (simp add: broadcast_effects_def split: option.split)

lemma count_broadcast_effects_other:
  "j \<noteq> stringify m \<Longrightarrow> count_list (broadcast_effects s pid m ex) (WsSend k j) = 0"
  using broadcast_effects_only [of "WsSend k j" s pid m ex]
  by (auto simp: count_list_0_iff)

lemma count_broadcast_effects_emit:
  "count_list (broadcast_effects s pid m ex) (IoEmit pid' t)
     = (if projects s pid \<noteq> None \<and> pid' = pid \<and> t = mtype m then 1 else 0)"
proof -
  have "count_list (concat (map (sends s pid U j ex) ks)) (IoEmit pid' t) = 0" for U j ks
    by (induction ks) (auto simp: sends_def split: option.splits)
  then show ?thesis
    by (auto simp: broadcast_effects_def split: option.splits)
qed

lemma project_join_valid:
  assumes "get_prop args ''projectId'' = Inr (Some (JStr Q))" "Q \<noteq> []"
    "projectId c = Some P" "P \<noteq> []" "Q \<noteq> P"
  shows "project_join s c args r =
     broadcast
       (sendResponse
          (add_member (ensure_project (set_projectId (leaveProject s c P) c Q) Q) Q (userId c))
          c (JObj [(''success'', JBool True), (''message'', JStr (''Joined project '' @ Q))]) r)
       Q (user_event ''user_joined'' c) (Some c)"
  using assms by (simp add: project_join_def Let_def)

lemma project_join_switch:
  assumes "get_prop args ''projectId'' = Inr (Some (JStr Q))" "Q \<noteq> []"
    "projectId c = Some P" "P \<noteq> []" "Q \<noteq> P"
    and s'_def: "s' = project_join s c args r"
  shows "projects s' P = (case projects s P of None \<Rightarrow> None
           | Some U \<Rightarrow> if U - {userId c} = {} then None else Some (U - {userId c}))"
    and "projects s' Q = Some (insert (userId c) (members s Q))"
    and "client_of s' k' =
           (if k' = clientId c
            then map_option (\<lambda>obj. obj\<lparr>projectId := Some Q\<rparr>) (client_of s k')
            else client_of s k')"
    and "ws_readyState s' = ws_readyState s"
    and "effects s' = effects s @ leave_effects s c P
           @ (if ws_readyState s (clientId c) = OPEN
              then [WsSend (clientId c) (join_reply Q r)] else [])
           @ broadcast_effects s' Q (user_event ''user_joined'' c) (Some c)"
proof -
  let ?s1 = "leaveProject s c P"
  let ?s3 = "add_member (ensure_project (set_projectId ?s1 c Q) Q) Q (userId c)"
  let ?s4 = "sendResponse ?s3 c
       (JObj [(''success'', JBool True), (''message'', JStr (''Joined project '' @ Q))]) r"
  have s': "s' = broadcast ?s4 Q (user_event ''user_joined'' c) (Some c)"
    unfolding s'_def using assms(1-5) by (rule project_join_valid)
  have pr: "projects s' = (projects ?s1)(Q \<mapsto> insert (userId c)
        (case projects ?s1 Q of None \<Rightarrow> {} | Some U \<Rightarrow> U))"
    by (simp add: s' add_member_def ensure_project_def split: option.split)
  show "projects s' P = (case projects s P of None \<Rightarrow> None
           | Some U \<Rightarrow> if U - {userId c} = {} then None else Some (U - {userId c}))"
    using assms(5) by (simp add: pr leaveProject_projects split: option.split)
  show "projects s' Q = Some (insert (userId c) (members s Q))"
    using assms(5) by (simp add: pr leaveProject_projects members_def split: option.split)
  show "client_of s' k' =
           (if k' = clientId c
            then map_option (\<lambda>obj. obj\<lparr>projectId := Some Q\<rparr>) (client_of s k')
            else client_of s k')"
    by (simp add: s' set_projectId_client_of)
  show "ws_readyState s' = ws_readyState s"
    by (simp add: s')
  have be: "broadcast_effects ?s4 Q (user_event ''user_joined'' c) (Some c)
      = broadcast_effects s' Q (user_event ''user_joined'' c) (Some c)"
    by (rule broadcast_effects_cong [symmetric]) (simp_all add: s')
  show "effects s' = effects s @ leave_effects s c P
           @ (if ws_readyState s (clientId c) = OPEN
              then [WsSend (clientId c) (join_reply Q r)] else [])
           @ broadcast_effects s' Q (user_event ''user_joined'' c) (Some c)"
    unfolding be [symmetric]
    by (simp add: s' effects_simps join_reply_def)
qed

lemma server_inv_row:
  "server_inv s \<Longrightarrow> V \<noteq> {} \<Longrightarrow> server_inv (s\<lparr>projects := (projects s)(P \<mapsto> V)\<rparr>)"
  by (simp add: server_inv_def)

lemma count_leave_effects:
  assumes "server_inv s" "client_of s k = Some c" "projectId c = Some P"
  shows "count_list (leave_effects s c P) (WsSend k' (stringify (user_event ''user_left'' c)))
     = (if k' \<noteq> k \<and> ws_readyState s k' = OPEN
           \<and> (case client_of s k' of None \<Rightarrow> False
               | Some c' \<Rightarrow> projectId c' = Some P \<and> userId c' \<in> members s P - {userId c})
        then 1 else 0)"
proof -
  have ck: "clientId c = k"
    using assms by (simp add: server_inv_def)
  show ?thesis
  proof (cases "projects s P")
    case None
    then show ?thesis
      by (simp add: leave_effects_def members_def split: option.split)
  next
    case (Some U)
    show ?thesis
    proof (cases "U - {userId c} = {}")
      case True
      with Some show ?thesis
        by (auto simp: leave_effects_def members_def split: option.split)
    next
      case False
      let ?sL = "s\<lparr>projects := (projects s)(P \<mapsto> U - {userId c})\<rparr>"
      have "server_inv ?sL"
        using assms(1) False by (rule server_inv_row)
      from count_broadcast_effects [OF this, of P "user_event ''user_left'' c" "Some c" k']
      show ?thesis
        using Some False ck assms(2,3)
        by (auto simp: leave_effects_def open_member_def excluded_def members_def
            split: option.splits)
    qed
  qed
qed

lemma count_leave_effects_emit:
  "count_list (leave_effects s c P) (IoEmit P ''user_left'')
     = (if members s P - {userId c} = {} then 0 else 1)"
  by (simp add: leave_effects_def members_def count_broadcast_effects_emit user_event_def
      split: option.split)

lemma count_leave_effects_other:
  "j \<noteq> stringify (user_event ''user_left'' c)
     \<Longrightarrow> count_list (leave_effects s c P) (WsSend k' j) = 0"
  by (simp add: leave_effects_def count_broadcast_effects_other split: option.split)

lemma envelopes_differ [simp]:
  "join_reply Q r \<noteq> stringify (user_event t c)"
  "stringify (user_event t c) \<noteq> join_reply Q r"
  "stringify (user_event ''user_joined'' c) \<noteq> stringify (user_event ''user_left'' c)"
  "stringify (user_event ''user_left'' c) \<noteq> stringify (user_event ''user_joined'' c)"
  by (cases r; simp add: join_reply_def mk_obj_def List.map_filter_simps stringify_def
      user_event_def)+

text \<open>
  C4. In a state the server reaches, the client \<open>c\<close> of connection \<open>k\<close>, bound to project
  \<open>P\<close>, calls \<^verbatim>\<open>project:join\<close> with a non-empty project id \<open>Q\<close> other than \<open>P\<close>. Then the
  user id is out of the member set of \<open>P\<close>; \<^verbatim>\<open>user_left\<close> is broadcast for \<open>P\<close> only if \<open>P\<close>
  still has members, and it is sent once to each other connection that is an open
  member connection of \<open>P\<close>; the client is bound to \<open>Q\<close> and the user id is in the member
  set of \<open>Q\<close>; the success reply is written once to the sender (its socket being open);
  and \<^verbatim>\<open>user_joined\<close> is sent once to each open member connection of \<open>Q\<close> other than the
  sender's.
\<close>

theorem join_switches_project:
  "client_of (run env evs) k = Some c \<and> projectId c = Some P \<and> Q \<noteq> [] \<and> Q \<noteq> P
     \<and> destructure ''payload'' pl ''toolName'' = Inr (Some (JStr ''project:join''))
     \<and> get_prop (opt_prop pl ''arguments'') ''projectId'' = Inr (Some (JStr Q))
     \<and> s' = handleMcpToolCall env (run env evs) c pl r
   \<longrightarrow>
     members s' P = members (run env evs) P - {userId c}
     \<and> count_list (added (run env evs) s') (IoEmit P ''user_left'')
         = (if members (run env evs) P - {userId c} = {} then 0 else 1)
     \<and> count_list (added (run env evs) s') (WsSend k' (stringify (user_event ''user_left'' c)))
         = (if k' \<noteq> k \<and> open_member s' P k' then 1 else 0)
     \<and> client_of s' k = Some (c\<lparr>projectId := Some Q\<rparr>)
     \<and> members s' Q = insert (userId c) (members (run env evs) Q)
     \<and> count_list (added (run env evs) s') (WsSend k (join_reply Q r))
         = (if ws_readyState (run env evs) k = OPEN then 1 else 0)
     \<and> count_list (added (run env evs) s') (WsSend k' (stringify (user_event ''user_joined'' c)))
         = (if k' \<noteq> k \<and> open_member s' Q k' then 1 else 0)"
proof (intro impI)
  let ?s = "run env evs"
  let ?left = "user_event ''user_left'' c" and ?joined = "user_event ''user_joined'' c"
  assume h: "client_of ?s k = Some c \<and> projectId c = Some P \<and> Q \<noteq> [] \<and> Q \<noteq> P
     \<and> destructure ''payload'' pl ''toolName'' = Inr (Some (JStr ''project:join''))
     \<and> get_prop (opt_prop pl ''arguments'') ''projectId'' = Inr (Some (JStr Q))
     \<and> s' = handleMcpToolCall env ?s c pl r"
  have inv: "server_inv ?s" by (rule server_inv_run)
  have cs: "client_of ?s k = Some c" and pc: "projectId c = Some P" and QP: "Q \<noteq> P"
    using h by simp_all
  have ck: "clientId c = k" and P: "P \<noteq> []"
    using inv h by (auto simp: server_inv_def)
  have s': "s' = project_join ?s c (opt_prop pl ''arguments'') r"
    using h by (simp add: handleMcpToolCall_def Let_def)
  have inv': "server_inv s'"
    unfolding s' using inv by (rule server_inv_project_join)
  note sw = project_join_switch [of "opt_prop pl ''arguments''" Q c P s' ?s r]
  have prP: "projects s' P = (case projects ?s P of None \<Rightarrow> None
           | Some U \<Rightarrow> if U - {userId c} = {} then None else Some (U - {userId c}))"
    using h P s' by (intro sw(1)) simp_all
  have prQ: "projects s' Q = Some (insert (userId c) (members ?s Q))"
    using h P s' by (intro sw(2)) simp_all
  have co: "client_of s' k'' =
           (if k'' = k then map_option (\<lambda>obj. obj\<lparr>projectId := Some Q\<rparr>) (client_of ?s k'')
            else client_of ?s k'')" for k''
    using h P s' sw(3) [of k''] ck by simp
  have ws: "ws_readyState s' = ws_readyState ?s"
    using h P s' by (intro sw(4)) simp_all
  have eff: "added ?s s' = leave_effects ?s c P
           @ (if ws_readyState ?s k = OPEN then [WsSend k (join_reply Q r)] else [])
           @ broadcast_effects s' Q ?joined (Some c)"
  proof -
    have "effects s' = effects ?s @ leave_effects ?s c P
           @ (if ws_readyState ?s (clientId c) = OPEN
              then [WsSend (clientId c) (join_reply Q r)] else [])
           @ broadcast_effects s' Q ?joined (Some c)"
      using h P s' by (intro sw(5)) simp_all
    then show ?thesis by (simp add: added_def ck)
  qed
  have mP: "members s' P = members ?s P - {userId c}"
    by (auto simp: members_def prP split: option.splits)
  have mQ: "members s' Q = insert (userId c) (members ?s Q)"
    by (simp add: members_def prQ)
  have c1: "count_list (added ?s s') (IoEmit P ''user_left'')
         = (if members ?s P - {userId c} = {} then 0 else 1)"
    using QP by (simp add: eff count_leave_effects_emit count_broadcast_effects_emit)
  have omP: "(k' \<noteq> k \<and> open_member s' P k')
      = (k' \<noteq> k \<and> ws_readyState ?s k' = OPEN
           \<and> (case client_of ?s k' of None \<Rightarrow> False
               | Some c' \<Rightarrow> projectId c' = Some P \<and> userId c' \<in> members ?s P - {userId c}))"
    by (auto simp: open_member_def ws co mP split: option.splits)
  have c2: "count_list (added ?s s') (WsSend k' (stringify ?left))
         = (if k' \<noteq> k \<and> open_member s' P k' then 1 else 0)"
    using count_leave_effects [OF inv cs pc, of k']
    by (simp add: eff omP count_broadcast_effects_other)
  have c3: "client_of s' k = Some (c\<lparr>projectId := Some Q\<rparr>)"
    using cs by (simp add: co)
  have c4: "count_list (added ?s s') (WsSend k (join_reply Q r))
         = (if ws_readyState ?s k = OPEN then 1 else 0)"
    by (simp add: eff count_leave_effects_other count_broadcast_effects_other)
  have c5: "count_list (added ?s s') (WsSend k' (stringify ?joined))
         = (if k' \<noteq> k \<and> open_member s' Q k' then 1 else 0)"
    using count_broadcast_effects [OF inv', of Q ?joined "Some c" k'] ck
    by (auto simp: eff count_leave_effects_other excluded_def)
  show "members s' P = members ?s P - {userId c}
     \<and> count_list (added ?s s') (IoEmit P ''user_left'')
         = (if members ?s P - {userId c} = {} then 0 else 1)
     \<and> count_list (added ?s s') (WsSend k' (stringify ?left))
         = (if k' \<noteq> k \<and> open_member s' P k' then 1 else 0)
     \<and> client_of s' k = Some (c\<lparr>projectId := Some Q\<rparr>)
     \<and> members s' Q = insert (userId c) (members ?s Q)
     \<and> count_list (added ?s s') (WsSend k (join_reply Q r))
         = (if ws_readyState ?s k = OPEN then 1 else 0)
     \<and> count_list (added ?s s') (WsSend k' (stringify ?joined))
         = (if k' \<noteq> k \<and> open_member s' Q k' then 1 else 0)"
    using mP c1 c2 c3 mQ c4 c5 by blast
qed

theorem join_switches_project_witness:
  "(client_of (run example_env two_projects) ''a''
      = Some \<lparr>clientId = ''a'', userId = ''u1'', userName = ''Ann'', isAuthenticated = True,
              projectId = Some ''P''\<rparr>
    \<and> ''Q'' \<noteq> [] \<and> ''Q'' \<noteq> ''P''
    \<and> ws_readyState (run example_env two_projects) ''a'' = OPEN)
   \<and> client_of
        (handleMcpToolCall example_env (run example_env two_projects)
           \<lparr>clientId = ''a'', userId = ''u1'', userName = ''Ann'', isAuthenticated = True,
            projectId = Some ''P''\<rparr>
           (Some (tool_payload ''project:join'' (JObj [(''projectId'', JStr ''Q'')])))
           (Some (JStr ''r4''))) ''a''
       = Some \<lparr>clientId = ''a'', userId = ''u1'', userName = ''Ann'', isAuthenticated = True,
               projectId = Some ''Q''\<rparr>
   \<and> count_list
        (added (run example_env two_projects)
           (handleMcpToolCall example_env (run example_env two_projects)
              \<lparr>clientId = ''a'', userId = ''u1'', userName = ''Ann'', isAuthenticated = True,
               projectId = Some ''P''\<rparr>
              (Some (tool_payload ''project:join'' (JObj [(''projectId'', JStr ''Q'')])))
              (Some (JStr ''r4''))))
        (WsSend ''b''
           (stringify (user_event ''user_left''
              \<lparr>clientId = ''a'', userId = ''u1'', userName = ''Ann'', isAuthenticated = True,
               projectId = Some ''P''\<rparr>))) = 1
   \<and> count_list
        (added (run example_env two_projects)
           (handleMcpToolCall example_env (run example_env two_projects)
              \<lparr>clientId = ''a'', userId = ''u1'', userName = ''Ann'', isAuthenticated = True,
               projectId = Some ''P''\<rparr>
              (Some (tool_payload ''project:join'' (JObj [(''projectId'', JStr ''Q'')])))
              (Some (JStr ''r4''))))
        (WsSend ''d''
           (stringify (user_event ''user_joined''
              \<lparr>clientId = ''a'', userId = ''u1'', userName = ''Ann'', isAuthenticated = True,
               projectId = Some ''P''\<rparr>))) = 1
   \<and> count_list
        (added (run example_env two_projects)
           (handleMcpToolCall example_env (run example_env two_projects)
              \<lparr>clientId = ''a'', userId = ''u1'', userName = ''Ann'', isAuthenticated = True,
               projectId = Some ''P''\<rparr>
              (Some (tool_payload ''project:join'' (JObj [(''projectId'', JStr ''Q'')])))
              (Some (JStr ''r4''))))
        (WsSend ''a'' (join_reply ''Q'' (Some (JStr ''r4'')))) = 1"
proof -
  let ?s = "run example_env two_projects"
  let ?c = "\<lparr>clientId = ''a'', userId = ''u1'', userName = ''Ann'', isAuthenticated = True,
            projectId = Some ''P''\<rparr>"
  let ?pl = "Some (tool_payload ''project:join'' (JObj [(''projectId'', JStr ''Q'')]))"
  let ?s' = "handleMcpToolCall example_env ?s ?c ?pl (Some (JStr ''r4''))"
  have h0: "client_of ?s ''a'' = Some ?c \<and> projectId ?c = Some ''P'' \<and> ''Q'' \<noteq> []
     \<and> ''Q'' \<noteq> ''P''
     \<and> destructure ''payload'' ?pl ''toolName'' = Inr (Some (JStr ''project:join''))
     \<and> get_prop (opt_prop ?pl ''arguments'') ''projectId'' = Inr (Some (JStr ''Q''))"
    by code_simp
  then have h: "client_of ?s ''a'' = Some ?c \<and> projectId ?c = Some ''P'' \<and> ''Q'' \<noteq> []
     \<and> ''Q'' \<noteq> ''P''
     \<and> destructure ''payload'' ?pl ''toolName'' = Inr (Some (JStr ''project:join''))
     \<and> get_prop (opt_prop ?pl ''arguments'') ''projectId'' = Inr (Some (JStr ''Q''))
     \<and> ?s' = handleMcpToolCall example_env ?s ?c ?pl (Some (JStr ''r4''))"
    by blast
  have st: "ws_readyState ?s ''a'' = OPEN \<and> open_member ?s' ''P'' ''b''
      \<and> open_member ?s' ''Q'' ''d'' \<and> ''b'' \<noteq> ''a'' \<and> ''d'' \<noteq> ''a''"
    by code_simp
  show ?thesis
    using h st
      join_switches_project [of example_env two_projects "''a''" ?c "''P''" "''Q''" ?pl ?s'
        "Some (JStr ''r4'')" "''b''"]
      join_switches_project [of example_env two_projects "''a''" ?c "''P''" "''Q''" ?pl ?s'
        "Some (JStr ''r4'')" "''d''"]
    by simp
qed

end
